theory Spec2Isabelle
  imports Main "HOL-Library.Word"
begin

unbundle bit_operations_syntax

section \<open>libcpath: shallow embedding of libcpath\_path.c (narrow-character functions)\<close>

subsection \<open>C data: pointers, characters, sizes\<close>

text \<open>
  A C pointer argument is either \<open>NULL\<close> or points to a value. A string argument
  \<open>(const char *path, size_t path_length)\<close> is one \<open>string ptr\<close>: \<open>Ptr s\<close> is a buffer whose
  first \<open>path_length = length s\<close> characters are \<open>s\<close>. An output slot \<open>char **full_path\<close> is a
  \<open>string ptr ptr\<close>: \<open>Ptr NULL\<close> is the empty slot, \<open>Ptr (Ptr s)\<close> a slot that is already
  set. An output \<open>size_t *n\<close> is a \<open>nat ptr\<close> holding the value it pointed to before the call.
\<close>

datatype 'a ptr = NULL | Ptr 'a

abbreviation BACKSLASH :: char where
  "BACKSLASH \<equiv> CHR 0x5C"

abbreviation NUL :: char where
  "NUL \<equiv> CHR 0x00"

text \<open>
  The numeric value of a \<open>char\<close>. Every range test of the source has a lower bound of at
  least \<open>0x00\<close> and an upper bound of at most \<open>0x7f\<close>, so the tests give the same answer
  whether the platform's \<open>char\<close> is signed or unsigned; the model reads the byte unsigned.
\<close>

definition char_code :: "char \<Rightarrow> nat" where
  "char_code c = of_char c"

text \<open>
  \<open>SIZE_MAX\<close> and \<open>SSIZE_MAX\<close> come from the platform headers (limits.h, common.h), which are
  not part of the library's sources: the model takes the values of a 64-bit platform.
  \<open>size_t\<close> arithmetic wraps modulo \<open>SIZE_MAX + 1\<close>.
\<close>

definition SIZE_MAX :: nat where
  "SIZE_MAX = 2 ^ 64 - 1"

definition SSIZE_MAX :: nat where
  "SSIZE_MAX = 2 ^ 63 - 1"

definition size_add :: "nat \<Rightarrow> nat \<Rightarrow> nat" where
  "size_add a b = (a + b) mod 2 ^ 64"

definition size_sub :: "nat \<Rightarrow> nat \<Rightarrow> nat" where
  "size_sub a b = (a + 2 ^ 64 - b mod 2 ^ 64) mod 2 ^ 64"

subsection \<open>Errors (libcerror)\<close>

text \<open>
  The domain and code of every \<open>libcerror_error_set\<close> call of the source. The error object
  keeps the code of the first call and collects the messages of all calls on the way up.
\<close>

datatype error_code =
    ARGUMENT_ERROR_INVALID_VALUE
  | ARGUMENT_ERROR_VALUE_ZERO_OR_LESS
  | ARGUMENT_ERROR_VALUE_EXCEEDS_MAXIMUM
  | ARGUMENT_ERROR_VALUE_OUT_OF_BOUNDS
  | ARGUMENT_ERROR_VALUE_TOO_SMALL
  | RUNTIME_ERROR_VALUE_ALREADY_SET
  | RUNTIME_ERROR_VALUE_MISSING
  | RUNTIME_ERROR_VALUE_OUT_OF_BOUNDS
  | RUNTIME_ERROR_GET_FAILED
  | RUNTIME_ERROR_SET_FAILED
  | RUNTIME_ERROR_INITIALIZE_FAILED
  | MEMORY_ERROR_INSUFFICIENT

datatype error = Error (code: error_code) (messages: "string list")

definition error_set :: "error_code \<Rightarrow> string \<Rightarrow> error" where
  "error_set c m = Error c [m]"

definition error_add :: "error \<Rightarrow> error_code \<Rightarrow> string \<Rightarrow> error" where
  "error_add e c m = Error (code e) (messages e @ [m])"

text \<open>
  Modelled from the spec: the error kinds of its error taxonomy (section 7), to which the
  spec reduces the error object. Argument errors and an output slot that is already set
  are \<open>InvalidArgument\<close>.
\<close>

datatype error_kind =
  InvalidArgument | ValueOutOfBounds | ValueMissing | AllocationFailure | OSCallFailure

fun kind_of_code :: "error_code \<Rightarrow> error_kind" where
  "kind_of_code ARGUMENT_ERROR_INVALID_VALUE = InvalidArgument"
| "kind_of_code ARGUMENT_ERROR_VALUE_ZERO_OR_LESS = InvalidArgument"
| "kind_of_code ARGUMENT_ERROR_VALUE_EXCEEDS_MAXIMUM = InvalidArgument"
| "kind_of_code ARGUMENT_ERROR_VALUE_OUT_OF_BOUNDS = ValueOutOfBounds"
| "kind_of_code ARGUMENT_ERROR_VALUE_TOO_SMALL = ValueOutOfBounds"
| "kind_of_code RUNTIME_ERROR_VALUE_ALREADY_SET = InvalidArgument"
| "kind_of_code RUNTIME_ERROR_VALUE_MISSING = ValueMissing"
| "kind_of_code RUNTIME_ERROR_VALUE_OUT_OF_BOUNDS = ValueOutOfBounds"
| "kind_of_code RUNTIME_ERROR_GET_FAILED = OSCallFailure"
| "kind_of_code RUNTIME_ERROR_SET_FAILED = OSCallFailure"
| "kind_of_code RUNTIME_ERROR_INITIALIZE_FAILED = OSCallFailure"
| "kind_of_code MEMORY_ERROR_INSUFFICIENT = AllocationFailure"

definition error_kind_of :: "error \<Rightarrow> error_kind" where
  "error_kind_of e = kind_of_code (code e)"

subsection \<open>Path classifier (Windows syntax)\<close>

datatype path_type =
    LIBCPATH_TYPE_ABSOLUTE
  | LIBCPATH_TYPE_DEVICE
  | LIBCPATH_TYPE_EXTENDED_LENGTH
  | LIBCPATH_TYPE_EXTENDED_LENGTH_UNC
  | LIBCPATH_TYPE_RELATIVE
  | LIBCPATH_TYPE_UNC

definition is_letter :: "char \<Rightarrow> bool" where
  "is_letter c \<longleftrightarrow>
     (char_code (CHR ''A'') \<le> char_code c \<and> char_code c \<le> char_code (CHR ''Z''))
   \<or> (char_code (CHR ''a'') \<le> char_code c \<and> char_code c \<le> char_code (CHR ''z''))"

text \<open>The test for the prefixes \<open>\\.\\<close> and \<open>\\?\\<close> shared by both classifier functions.\<close>

definition is_special_prefix :: "string \<Rightarrow> bool" where
  "is_special_prefix path \<longleftrightarrow>
     length path \<ge> 4
   \<and> path ! 0 = BACKSLASH
   \<and> path ! 1 = BACKSLASH
   \<and> (path ! 2 = CHR ''.'' \<or> path ! 2 = CHR ''?'')
   \<and> path ! 3 = BACKSLASH"

definition is_unc_marker :: "string \<Rightarrow> bool" where
  "is_unc_marker path \<longleftrightarrow>
     length path \<ge> 8
   \<and> path ! 4 = CHR ''U''
   \<and> path ! 5 = CHR ''N''
   \<and> path ! 6 = CHR ''C''
   \<and> path ! 7 = BACKSLASH"

definition get_path_type :: "string ptr \<Rightarrow> path_type ptr \<Rightarrow> error + path_type" where
  "get_path_type path path_type =
     (case path of
        NULL \<Rightarrow> Inl (error_set ARGUMENT_ERROR_INVALID_VALUE
                  ''libcpath_path_get_path_type: invalid path.'')
      | Ptr p \<Rightarrow>
          if length p = 0 then
            Inl (error_set ARGUMENT_ERROR_VALUE_ZERO_OR_LESS
                  ''libcpath_path_get_path_type: invalid path length is zero.'')
          else if length p > SSIZE_MAX - 1 then
            Inl (error_set ARGUMENT_ERROR_VALUE_EXCEEDS_MAXIMUM
                  ''libcpath_path_get_path_type: invalid path length value exceeds maximum.'')
          else if path_type = NULL then
            Inl (error_set ARGUMENT_ERROR_INVALID_VALUE
                  ''libcpath_path_get_path_type: invalid path type.'')
          else if is_special_prefix p then
            (if p ! 2 = CHR ''.'' then Inr LIBCPATH_TYPE_DEVICE
             else if is_unc_marker p then Inr LIBCPATH_TYPE_EXTENDED_LENGTH_UNC
             else Inr LIBCPATH_TYPE_EXTENDED_LENGTH)
          else if length p \<ge> 2 \<and> p ! 0 = BACKSLASH \<and> p ! 1 = BACKSLASH then
            Inr LIBCPATH_TYPE_UNC
          else if p ! 0 = BACKSLASH then
            Inr LIBCPATH_TYPE_ABSOLUTE
          else if length p \<ge> 3 \<and> p ! 1 = CHR '':'' \<and> p ! 2 = BACKSLASH \<and> is_letter (p ! 0) then
            Inr LIBCPATH_TYPE_ABSOLUTE
          else Inr LIBCPATH_TYPE_RELATIVE)"

text \<open>
  The scanning loop of \<open>libcpath_path_get_volume_name\<close>:
  \<^verbatim>\<open>for( i = start; i < path_length; i++ ) { if( path[ i ] == '\\' ) { i++; break; } }\<close>
  The result is the value of the index after the loop.
\<close>

function scan_separator :: "string \<Rightarrow> nat \<Rightarrow> nat" where
  "scan_separator path i =
     (if i < length path then
        (if path ! i = BACKSLASH then i + 1 else scan_separator path (i + 1))
      else i)"
  by pat_completeness auto
termination
  by (relation "measure (\<lambda>(path, i). length path - i)") auto

declare scan_separator.simps [simp del]

text \<open>
  The outputs of \<open>libcpath_path_get_volume_name\<close>: the volume name pointer (\<open>NULL\<close>, or the
  characters of the path from the volume name on), its length and the index of the
  directory name.
\<close>

record volume_name_result =
  volume_name :: "string ptr"
  volume_name_length :: nat
  directory_name_index :: nat

definition volume_name_index_of :: "string \<Rightarrow> nat" where
  "volume_name_index_of p =
     (if is_special_prefix p then
        (if p ! 2 = CHR ''.'' then 4
         else if is_unc_marker p then 8
         else 4)
      else if length p \<ge> 2 \<and> p ! 0 = BACKSLASH \<and> p ! 1 = BACKSLASH then 2
      else 0)"

definition volume_result :: "string \<Rightarrow> nat \<Rightarrow> nat \<Rightarrow> volume_name_result" where
  "volume_result p start path_index =
     \<lparr> volume_name = Ptr (drop start p),
       volume_name_length =
         (if p ! (path_index - 1) = BACKSLASH then size_sub (path_index - start) 1
          else path_index - start),
       directory_name_index = path_index \<rparr>"

definition get_volume_name ::
  "string ptr \<Rightarrow> string ptr ptr \<Rightarrow> nat ptr \<Rightarrow> nat ptr \<Rightarrow> error + volume_name_result" where
  "get_volume_name path volume_name_out volume_name_length_out directory_name_index_out =
     (case path of
        NULL \<Rightarrow> Inl (error_set ARGUMENT_ERROR_INVALID_VALUE
                  ''libcpath_path_get_volume_name: invalid path.'')
      | Ptr p \<Rightarrow>
          if length p = 0 then
            Inl (error_set ARGUMENT_ERROR_VALUE_ZERO_OR_LESS
                  ''libcpath_path_get_volume_name: invalid path length is zero.'')
          else if length p > SSIZE_MAX - 1 then
            Inl (error_set ARGUMENT_ERROR_VALUE_EXCEEDS_MAXIMUM
                  ''libcpath_path_get_volume_name: invalid path length value exceeds maximum.'')
          else if volume_name_out = NULL then
            Inl (error_set ARGUMENT_ERROR_INVALID_VALUE
                  ''libcpath_path_get_volume_name: invalid volume name.'')
          else if volume_name_length_out = NULL then
            Inl (error_set ARGUMENT_ERROR_INVALID_VALUE
                  ''libcpath_path_get_volume_name: invalid volume name length.'')
          else if directory_name_index_out = NULL then
            Inl (error_set ARGUMENT_ERROR_INVALID_VALUE
                  ''libcpath_path_get_volume_name: invalid directory name index.'')
          else
            let volume_name_index = volume_name_index_of p in
            if length p \<ge> 2
               \<and> volume_name_index \<le> length p - 2
               \<and> p ! (volume_name_index + 1) = CHR '':''
               \<and> is_letter (p ! volume_name_index) then
              let path_index = volume_name_index + 2;
                  path_index = (if path_index < length p \<and> p ! path_index = BACKSLASH
                                then path_index + 1 else path_index)
              in Inr (volume_result p volume_name_index path_index)
            else if volume_name_index = 4 then
              Inr (volume_result p 4 (scan_separator p volume_name_index))
            else if volume_name_index = 2 \<or> volume_name_index = 8 then
              let share_name_index = scan_separator p volume_name_index in
              if share_name_index > length p then
                Inl (error_set RUNTIME_ERROR_VALUE_MISSING
                      ''libcpath_path_get_volume_name: invalid path - missing share name.'')
              else
                Inr (volume_result p volume_name_index (scan_separator p share_name_index))
            else
              Inr \<lparr> volume_name = NULL, volume_name_length = 0, directory_name_index = 0 \<rparr>)"

subsection \<open>The classifier's rules, in the words of the spec\<close>

text \<open>
  Section 4.1 of the spec gives the classifier as a list of rules on the first characters
  of the path, ``checked in order, first match wins''. The definitions below follow that
  description and not the source: a rule is a test for a prefix together with the type it
  gives, the classifier is the first rule that applies, and a path to which no rule
  applies is relative. The first rule of the spec names three results (device,
  extended-length and extended-length UNC); it is written as three rules, the device
  prefix first. The sentence of the spec leaves open whether its exception for \<open>UNC\\<close>
  also holds after \<open>\\.\\<close>; the list takes the reading in which it does not.
\<close>

definition starts_with :: "string \<Rightarrow> string \<Rightarrow> bool" where
  "starts_with pre p \<longleftrightarrow> take (length pre) p = pre"

text \<open>The letters of the pattern \<open><letter>:\\<close>.\<close>

definition drive_letters :: string where
  "drive_letters = ''ABCDEFGHIJKLMNOPQRSTUVWXYZabcdefghijklmnopqrstuvwxyz''"

definition classify_rules :: "((string \<Rightarrow> bool) \<times> path_type) list" where
  "classify_rules =
     [ (starts_with [BACKSLASH, BACKSLASH, CHR ''.'', BACKSLASH], LIBCPATH_TYPE_DEVICE),
       (starts_with ([BACKSLASH, BACKSLASH, CHR ''?'', BACKSLASH] @ ''UNC'' @ [BACKSLASH]),
          LIBCPATH_TYPE_EXTENDED_LENGTH_UNC),
       (starts_with [BACKSLASH, BACKSLASH, CHR ''?'', BACKSLASH], LIBCPATH_TYPE_EXTENDED_LENGTH),
       (starts_with [BACKSLASH, BACKSLASH], LIBCPATH_TYPE_UNC),
       (starts_with [BACKSLASH], LIBCPATH_TYPE_ABSOLUTE),
       (\<lambda>p. \<exists>l \<in> set drive_letters. starts_with [l, CHR '':'', BACKSLASH] p,
          LIBCPATH_TYPE_ABSOLUTE) ]"

fun first_match :: "(('a \<Rightarrow> bool) \<times> 'b) list \<Rightarrow> 'b \<Rightarrow> 'a \<Rightarrow> 'b" where
  "first_match [] otherwise x = otherwise"
| "first_match ((applies, result) # rules) otherwise x =
     (if applies x then result else first_match rules otherwise x)"

definition classify_path :: "string \<Rightarrow> path_type" where
  "classify_path p = first_match classify_rules LIBCPATH_TYPE_RELATIVE p"

subsection \<open>Memory: allocation and output buffers\<close>

text \<open>
  The operating system is outside the library. The model carries what the library can
  observe of it: whether an allocation of a given size succeeds, the content of freshly
  allocated (uninitialised) memory, the process's working directory, whether querying it
  succeeds, the directory in which a change of directory to a given name ends (\<open>None\<close> when
  the call fails), and the trace of the directory calls made so far.
\<close>

datatype os_call =
    GETCWD
  | GET_CURRENT_DIRECTORY
  | SET_CURRENT_DIRECTORY string
  | CHDIR string

record os =
  alloc_ok :: "nat \<Rightarrow> bool"
  uninitialised :: char
  working_directory :: string
  query_fails :: bool
  directory_of :: "string \<Rightarrow> string option"
  os_calls :: "os_call list"

text \<open>
  An output buffer is the allocated cells together with the accesses that fell outside
  of an allocation: C does not check them, the model records them.
\<close>

datatype memory_violation = WriteOutside nat char | ReadOutside nat

record buffer =
  cells :: string
  violations :: "memory_violation list"

definition narrow_string_allocate :: "os \<Rightarrow> nat \<Rightarrow> buffer ptr" where
  "narrow_string_allocate os n =
     (if alloc_ok os n then Ptr \<lparr> cells = replicate n (uninitialised os), violations = [] \<rparr>
      else NULL)"

definition memory_set_zero :: "buffer \<Rightarrow> buffer" where
  "memory_set_zero b = b \<lparr> cells := replicate (length (cells b)) NUL \<rparr>"

definition buffer_write :: "buffer \<Rightarrow> nat \<Rightarrow> char \<Rightarrow> buffer" where
  "buffer_write b i c =
     (if i < length (cells b) then b \<lparr> cells := (cells b)[i := c] \<rparr>
      else b \<lparr> violations := violations b @ [WriteOutside i c] \<rparr>)"

fun buffer_write_string :: "buffer \<Rightarrow> nat \<Rightarrow> string \<Rightarrow> buffer" where
  "buffer_write_string b i [] = b"
| "buffer_write_string b i (c # cs) = buffer_write_string (buffer_write b i c) (i + 1) cs"

text \<open>
  \<open>narrow_string_copy( &dst[ i ], src, n )\<close>: copies \<open>n\<close> characters. The source is the list
  of the characters that may be read from the source pointer.
\<close>

definition narrow_string_copy :: "buffer \<Rightarrow> nat \<Rightarrow> string \<Rightarrow> nat \<Rightarrow> buffer" where
  "narrow_string_copy b i src n =
     (let b' = buffer_write_string b i (take n src)
      in if n \<le> length src then b'
         else b' \<lparr> violations := violations b' @ [ReadOutside (n - length src)] \<rparr>)"


subsection \<open>Platform constants\<close>

text \<open>
  \<open>LIBCPATH_SEPARATOR\<close> and \<open>LIBCPATH_ESCAPE_CHARACTER\<close> are macros of
  libcpath\_definitions.h, which is not among the sources; \<open>WINAPI\<close> is a build flag. The
  sanitizer and the joiner take them as a parameter. The two instances below are
  modelled from the spec: the separator is \<open>/\<close> on POSIX and \<open>\\<close> on Windows, the hex
  escape is written \<open>\xHH\<close> on POSIX; the caret as the Windows escape character is the
  value of the upstream header.
\<close>

record platform =
  WINAPI :: bool
  LIBCPATH_SEPARATOR :: char
  LIBCPATH_ESCAPE_CHARACTER :: char

definition posix_platform :: platform where
  "posix_platform =
     \<lparr> WINAPI = False, LIBCPATH_SEPARATOR = CHR ''/'', LIBCPATH_ESCAPE_CHARACTER = BACKSLASH \<rparr>"

definition windows_platform :: platform where
  "windows_platform =
     \<lparr> WINAPI = True, LIBCPATH_SEPARATOR = BACKSLASH, LIBCPATH_ESCAPE_CHARACTER = CHR ''^'' \<rparr>"

subsection \<open>Sanitizer\<close>

definition is_reserved_character :: "char \<Rightarrow> bool" where
  "is_reserved_character c \<longleftrightarrow>
     c = CHR ''!'' \<or> c = CHR ''$'' \<or> c = CHR ''%'' \<or> c = CHR ''&'' \<or> c = CHR ''*''
   \<or> c = CHR ''+'' \<or> c = CHR '':'' \<or> c = CHR '';'' \<or> c = CHR ''<'' \<or> c = CHR ''>''
   \<or> c = CHR ''?'' \<or> c = CHR ''|'' \<or> c = CHR 0x7F"

definition get_sanitized_character_size :: "platform \<Rightarrow> char \<Rightarrow> nat ptr \<Rightarrow> error + nat" where
  "get_sanitized_character_size pf character sanitized_character_size =
     (if sanitized_character_size = NULL then
        Inl (error_set ARGUMENT_ERROR_INVALID_VALUE
              ''libcpath_path_get_sanitized_character_size: invalid sanitized character size.'')
      else if char_code character \<ge> 0x00 \<and> char_code character \<le> 0x1F then Inr 4
      else if character = LIBCPATH_ESCAPE_CHARACTER pf then Inr 2
      else if WINAPI pf \<and> character = CHR ''/'' then Inr 4
      else if is_reserved_character character then Inr 4
      else Inr 1)"

text \<open>
  The two hex digits of the 4-character escape, as the source computes them:
  \<^verbatim>\<open>nibble = character & 0x0f;  (or ( character >> 4 ) & 0x0f)
  if( nibble > 10 ) nibble += 'a' - 10; else nibble += '0';\<close>
\<close>

definition lower_nibble :: "char \<Rightarrow> 8 word" where
  "lower_nibble character = (of_nat (char_code character) :: 8 word) AND 0x0F"

definition upper_nibble :: "char \<Rightarrow> 8 word" where
  "upper_nibble character = drop_bit 4 (of_nat (char_code character) :: 8 word) AND 0x0F"

definition nibble_character :: "8 word \<Rightarrow> char" where
  "nibble_character nibble =
     (if nibble > 10 then char_of (unat (nibble + (of_nat (char_code (CHR ''a'')) - 10)))
      else char_of (unat (nibble + of_nat (char_code (CHR ''0'')))))"

text \<open>The characters that \<open>libcpath_path_get_sanitized_character\<close> writes for a size.\<close>

definition sanitized_characters :: "platform \<Rightarrow> char \<Rightarrow> nat \<Rightarrow> string" where
  "sanitized_characters pf character sanitized_character_size =
     (if sanitized_character_size = 1 then [character]
      else if sanitized_character_size = 2 then
        [LIBCPATH_ESCAPE_CHARACTER pf, LIBCPATH_ESCAPE_CHARACTER pf]
      else if sanitized_character_size = 4 then
        [LIBCPATH_ESCAPE_CHARACTER pf, CHR ''x'',
         nibble_character (upper_nibble character), nibble_character (lower_nibble character)]
      else [])"

text \<open>
  \<open>libcpath_path_get_sanitized_character\<close> returns the buffer and the index after the
  characters written.
\<close>

definition get_sanitized_character ::
  "platform \<Rightarrow> char \<Rightarrow> nat \<Rightarrow> buffer ptr \<Rightarrow> nat \<Rightarrow> nat ptr \<Rightarrow> error + (buffer \<times> nat)" where
  "get_sanitized_character pf character sanitized_character_size sanitized_path
       sanitized_path_size sanitized_path_index =
     (if sanitized_character_size \<noteq> 1 \<and> sanitized_character_size \<noteq> 2
         \<and> sanitized_character_size \<noteq> 4 then
        Inl (error_set ARGUMENT_ERROR_VALUE_OUT_OF_BOUNDS
              ''libcpath_path_get_sanitized_character: invalid sanitized character size value out of bounds.'')
      else case sanitized_path of
        NULL \<Rightarrow> Inl (error_set ARGUMENT_ERROR_INVALID_VALUE
                  ''libcpath_path_get_sanitized_character: invalid sanitized path.'')
      | Ptr b \<Rightarrow>
          if sanitized_path_size > SSIZE_MAX then
            Inl (error_set ARGUMENT_ERROR_VALUE_EXCEEDS_MAXIMUM
                  ''libcpath_path_get_sanitized_character: invalid sanitized path size value exceeds maximum.'')
          else (case sanitized_path_index of
            NULL \<Rightarrow> Inl (error_set ARGUMENT_ERROR_INVALID_VALUE
                      ''libcpath_path_get_sanitized_character: invalid sanitized path index.'')
          | Ptr safe_sanitized_path_index \<Rightarrow>
              if safe_sanitized_path_index > sanitized_path_size then
                Inl (error_set ARGUMENT_ERROR_VALUE_OUT_OF_BOUNDS
                      ''libcpath_path_get_sanitized_character: invalid sanitized path index value out of bounds.'')
              else if sanitized_character_size > sanitized_path_size
                      \<or> safe_sanitized_path_index > sanitized_path_size - sanitized_character_size then
                Inl (error_set ARGUMENT_ERROR_VALUE_TOO_SMALL
                      ''libcpath_path_get_sanitized_character: invalid sanitized path size value too small.'')
              else
                Inr (buffer_write_string b safe_sanitized_path_index
                       (sanitized_characters pf character sanitized_character_size),
                     safe_sanitized_path_index + sanitized_character_size)))"

text \<open>
  The size of one character in \<open>libcpath_path_get_sanitized_filename\<close> (a separator takes
  4) and in \<open>libcpath_path_get_sanitized_path\<close> (a separator is an ordinary character).
\<close>

definition filename_character_size :: "platform \<Rightarrow> char \<Rightarrow> error + nat" where
  "filename_character_size pf c =
     (if c = LIBCPATH_SEPARATOR pf then Inr 4
      else case get_sanitized_character_size pf c (Ptr 0) of
             Inl e \<Rightarrow> Inl (error_add e RUNTIME_ERROR_GET_FAILED
                       ''libcpath_path_get_sanitized_filename: unable to determine sanitize character size.'')
           | Inr n \<Rightarrow> Inr n)"

fun sanitized_filename_size :: "platform \<Rightarrow> string \<Rightarrow> nat \<Rightarrow> error + nat" where
  "sanitized_filename_size pf [] safe_size = Inr safe_size"
| "sanitized_filename_size pf (c # cs) safe_size =
     (case filename_character_size pf c of
        Inl e \<Rightarrow> Inl e
      | Inr n \<Rightarrow> sanitized_filename_size pf cs (size_add safe_size n))"

fun sanitize_filename_characters ::
  "platform \<Rightarrow> string \<Rightarrow> buffer \<Rightarrow> nat \<Rightarrow> nat \<Rightarrow> error + (buffer \<times> nat)" where
  "sanitize_filename_characters pf [] b safe_size index = Inr (b, index)"
| "sanitize_filename_characters pf (c # cs) b safe_size index =
     (case filename_character_size pf c of
        Inl e \<Rightarrow> Inl e
      | Inr n \<Rightarrow>
          (case get_sanitized_character pf c n (Ptr b) safe_size (Ptr index) of
             Inl e \<Rightarrow> Inl (error_add e RUNTIME_ERROR_GET_FAILED
                       ''libcpath_path_get_sanitized_filename: unable to determine sanitize character size.'')
           | Inr (b', index') \<Rightarrow> sanitize_filename_characters pf cs b' safe_size index'))"

record sanitized_result =
  sanitized :: buffer
  sanitized_size :: nat

definition get_sanitized_filename ::
  "platform \<Rightarrow> os \<Rightarrow> string ptr \<Rightarrow> string ptr ptr \<Rightarrow> nat ptr \<Rightarrow> error + sanitized_result" where
  "get_sanitized_filename pf os filename sanitized_filename sanitized_filename_size_out =
     (case filename of
        NULL \<Rightarrow> Inl (error_set ARGUMENT_ERROR_INVALID_VALUE
                  ''libcpath_path_get_sanitized_filename: invalid filename.'')
      | Ptr f \<Rightarrow>
          if length f = 0 then
            Inl (error_set ARGUMENT_ERROR_VALUE_ZERO_OR_LESS
                  ''libcpath_path_get_sanitized_filename: invalid filename length is zero.'')
          else if length f > SSIZE_MAX - 1 then
            Inl (error_set ARGUMENT_ERROR_VALUE_EXCEEDS_MAXIMUM
                  ''libcpath_path_get_sanitized_filename: invalid filename length value exceeds maximum.'')
          else if sanitized_filename = NULL then
            Inl (error_set ARGUMENT_ERROR_INVALID_VALUE
                  ''libcpath_path_get_sanitized_filename: invalid sanitized filename.'')
          else if sanitized_filename \<noteq> Ptr NULL then
            Inl (error_set RUNTIME_ERROR_VALUE_ALREADY_SET
                  ''libcpath_path_get_sanitized_filename: invalid sanitized filename value already set.'')
          else if sanitized_filename_size_out = NULL then
            Inl (error_set ARGUMENT_ERROR_INVALID_VALUE
                  ''libcpath_path_get_sanitized_filename: invalid sanitized filename size.'')
          else (case sanitized_filename_size pf f 1 of
            Inl e \<Rightarrow> Inl e
          | Inr safe_sanitized_filename_size \<Rightarrow>
              if safe_sanitized_filename_size > SSIZE_MAX then
                Inl (error_set ARGUMENT_ERROR_VALUE_EXCEEDS_MAXIMUM
                      ''libcpath_path_get_sanitized_filename: invalid sanitized filename size value exceeds maximum.'')
              else (case narrow_string_allocate os safe_sanitized_filename_size of
                NULL \<Rightarrow> Inl (error_set MEMORY_ERROR_INSUFFICIENT
                          ''libcpath_path_get_sanitized_filename: unable to create sanitized filename.'')
              | Ptr b \<Rightarrow>
                  (case sanitize_filename_characters pf f b safe_sanitized_filename_size 0 of
                     Inl e \<Rightarrow> Inl e
                   | Inr (b', sanitized_filename_index) \<Rightarrow>
                       Inr \<lparr> sanitized = buffer_write b' sanitized_filename_index NUL,
                             sanitized_size = safe_sanitized_filename_size \<rparr>))))"

subsection \<open>Joiner\<close>

text \<open>
  \<^verbatim>\<open>while( directory_name_length > 0 ) {
    if( directory_name[ directory_name_length - 1 ] != LIBCPATH_SEPARATOR ) break;
    directory_name_length--; }\<close>
\<close>

fun strip_trailing_separators :: "char \<Rightarrow> string \<Rightarrow> nat \<Rightarrow> nat" where
  "strip_trailing_separators sep directory_name 0 = 0"
| "strip_trailing_separators sep directory_name (Suc n) =
     (if directory_name ! n \<noteq> sep then Suc n
      else strip_trailing_separators sep directory_name n)"

text \<open>
  \<^verbatim>\<open>while( filename_length > 0 ) {
    if( filename[ filename_index ] != LIBCPATH_SEPARATOR ) break;
    filename_index++; filename_length--; }\<close>
  The result is the pair of \<open>filename_index\<close> and \<open>filename_length\<close> after the loop.
\<close>

fun strip_leading_separators :: "char \<Rightarrow> string \<Rightarrow> nat \<Rightarrow> nat \<Rightarrow> nat \<times> nat" where
  "strip_leading_separators sep filename filename_index 0 = (filename_index, 0)"
| "strip_leading_separators sep filename filename_index (Suc n) =
     (if filename ! filename_index \<noteq> sep then (filename_index, Suc n)
      else strip_leading_separators sep filename (filename_index + 1) n)"

record join_result =
  joined_path :: buffer
  joined_path_size :: nat

definition join ::
  "platform \<Rightarrow> os \<Rightarrow> string ptr ptr \<Rightarrow> nat ptr \<Rightarrow> string ptr \<Rightarrow> string ptr \<Rightarrow> error + join_result" where
  "join pf os path_out path_size_out directory_name filename =
     (if path_out = NULL then
        Inl (error_set ARGUMENT_ERROR_INVALID_VALUE ''libcpath_path_join: invalid path.'')
      else if path_out \<noteq> Ptr NULL then
        Inl (error_set RUNTIME_ERROR_VALUE_ALREADY_SET
              ''libcpath_path_join: invalid path value already set.'')
      else if path_size_out = NULL then
        Inl (error_set ARGUMENT_ERROR_INVALID_VALUE ''libcpath_path_join: invalid path size.'')
      else case directory_name of
        NULL \<Rightarrow> Inl (error_set ARGUMENT_ERROR_INVALID_VALUE
                  ''libcpath_path_join: invalid directory name.'')
      | Ptr d \<Rightarrow>
          if length d > SSIZE_MAX then
            Inl (error_set ARGUMENT_ERROR_VALUE_EXCEEDS_MAXIMUM
                  ''libcpath_path_join: invalid directory name length value exceeds maximum.'')
          else (case filename of
            NULL \<Rightarrow> Inl (error_set ARGUMENT_ERROR_INVALID_VALUE
                      ''libcpath_path_join: invalid filename.'')
          | Ptr f \<Rightarrow>
              if length f > SSIZE_MAX then
                Inl (error_set ARGUMENT_ERROR_VALUE_EXCEEDS_MAXIMUM
                      ''libcpath_path_join: invalid filename length value exceeds maximum.'')
              else
                let directory_name_length =
                      strip_trailing_separators (LIBCPATH_SEPARATOR pf) d (length d);
                    (filename_index, filename_length) =
                      strip_leading_separators (LIBCPATH_SEPARATOR pf) f 0 (length f);
                    safe_path_size = size_add (size_add directory_name_length filename_length) 2
                in (case narrow_string_allocate os safe_path_size of
                     NULL \<Rightarrow> Inl (error_set MEMORY_ERROR_INSUFFICIENT
                               ''libcpath_path_join: unable to create path.'')
                   | Ptr b \<Rightarrow>
                       let b = narrow_string_copy b 0 d directory_name_length;
                           path_index = directory_name_length;
                           b = buffer_write b path_index (LIBCPATH_SEPARATOR pf);
                           path_index = path_index + 1;
                           b = narrow_string_copy b path_index (drop filename_index f)
                                 filename_length;
                           path_index = path_index + filename_length;
                           b = buffer_write b path_index NUL
                       in Inr \<lparr> joined_path = b, joined_path_size = safe_path_size \<rparr>)))"

subsection \<open>Segment lists (libcsplit)\<close>

text \<open>
  Modelled from the spec: the segment list is an external collaborator (libcsplit) that
  ``splits a string on a separator into an ordered, mutable list of segments; each segment
  can be individually retrieved or cleared (set to empty/zero-length) without
  reindexing''. A string with \<open>n\<close> separators has \<open>n + 1\<close> segments. A segment is a pointer
  and a size: an uncleared segment \<open>Ptr s\<close> has the size \<open>length s + 1\<close> (the source notes
  ``the size includes the end of string character'', and tests a segment for being empty
  with \<open>size <= 1\<close>), a cleared segment is \<open>NULL\<close> with the size 0. Retrieving or setting a
  segment outside of the list fails. The spec does not say how many segments the empty
  string has; here it has one, empty, segment.
\<close>

fun split_on :: "char \<Rightarrow> string \<Rightarrow> string list" where
  "split_on d [] = [[]]"
| "split_on d (c # cs) =
     (if c = d then [] # split_on d cs
      else (c # hd (split_on d cs)) # tl (split_on d cs))"

type_synonym split_string = "string ptr list"

definition narrow_string_split :: "string \<Rightarrow> char \<Rightarrow> split_string" where
  "narrow_string_split s d = map Ptr (split_on d s)"

definition segment_size :: "string ptr \<Rightarrow> nat" where
  "segment_size seg = (case seg of NULL \<Rightarrow> 0 | Ptr s \<Rightarrow> length s + 1)"

definition get_segment_by_index :: "split_string \<Rightarrow> int \<Rightarrow> error + string ptr" where
  "get_segment_by_index segments i =
     (if 0 \<le> i \<and> i < int (length segments) then Inr (segments ! nat i)
      else Inl (error_set ARGUMENT_ERROR_VALUE_OUT_OF_BOUNDS
             ''libcsplit_narrow_split_string_get_segment_by_index: invalid segment index value out of bounds.''))"

text \<open>\<open>set_segment_by_index( split_string, i, NULL, 0 )\<close>: clears the segment.\<close>

definition clear_segment_by_index :: "split_string \<Rightarrow> int \<Rightarrow> error + split_string" where
  "clear_segment_by_index segments i =
     (if 0 \<le> i \<and> i < int (length segments) then Inr (segments[nat i := NULL])
      else Inl (error_set ARGUMENT_ERROR_VALUE_OUT_OF_BOUNDS
             ''libcsplit_narrow_split_string_set_segment_by_index: invalid segment index value out of bounds.''))"

subsection \<open>Working directory\<close>

text \<open>\<open>PATH_MAX\<close> comes from limits.h; the model takes the value of Linux.\<close>

definition PATH_MAX :: nat where
  "PATH_MAX = 4096"

definition log_call :: "os \<Rightarrow> os_call \<Rightarrow> os" where
  "log_call os c = os \<lparr> os_calls := os_calls os @ [c] \<rparr>"

text \<open>
  \<open>libcpath_path_get_current_working_directory\<close>, POSIX variant (getcwd into a buffer of
  \<open>PATH_MAX\<close> characters). The result is the directory and the size of its buffer.
\<close>

definition get_current_working_directory_posix ::
  "os \<Rightarrow> string ptr ptr \<Rightarrow> nat ptr \<Rightarrow> (error + (string \<times> nat)) \<times> os" where
  "get_current_working_directory_posix os current_working_directory current_working_directory_size =
     (if current_working_directory = NULL then
        (Inl (error_set ARGUMENT_ERROR_INVALID_VALUE
               ''libcpath_path_get_current_working_directory: invalid current working directory.''), os)
      else if current_working_directory \<noteq> Ptr NULL then
        (Inl (error_set RUNTIME_ERROR_VALUE_ALREADY_SET
               ''libcpath_path_get_current_working_directory: invalid current working directory value already set.''), os)
      else if current_working_directory_size = NULL then
        (Inl (error_set ARGUMENT_ERROR_INVALID_VALUE
               ''libcpath_path_get_current_working_directory: invalid current working directory size.''), os)
      else if narrow_string_allocate os PATH_MAX = NULL then
        (Inl (error_set MEMORY_ERROR_INSUFFICIENT
               ''libcpath_path_get_current_working_directory: unable to create current working directory.''), os)
      else if query_fails os \<or> length (working_directory os) + 1 > PATH_MAX then
        (Inl (error_set RUNTIME_ERROR_GET_FAILED
               ''libcpath_path_get_current_working_directory: unable to retrieve current working directory.''),
         log_call os GETCWD)
      else (Inr (working_directory os, PATH_MAX), log_call os GETCWD))"

text \<open>
  The Windows variant: \<open>GetCurrentDirectoryA( 0, NULL )\<close> gives the size including the
  terminator (0 on failure), the second call fills the buffer. The result is the
  directory and that size.
\<close>

definition get_current_working_directory_windows ::
  "os \<Rightarrow> string ptr ptr \<Rightarrow> nat ptr \<Rightarrow> (error + (string \<times> nat)) \<times> os" where
  "get_current_working_directory_windows os current_working_directory current_working_directory_size =
     (if current_working_directory = NULL then
        (Inl (error_set ARGUMENT_ERROR_INVALID_VALUE
               ''libcpath_path_get_current_working_directory: invalid current working directory.''), os)
      else if current_working_directory \<noteq> Ptr NULL then
        (Inl (error_set RUNTIME_ERROR_VALUE_ALREADY_SET
               ''libcpath_path_get_current_working_directory: invalid current working directory value already set.''), os)
      else if current_working_directory_size = NULL then
        (Inl (error_set ARGUMENT_ERROR_INVALID_VALUE
               ''libcpath_path_get_current_working_directory: invalid current working directory size.''), os)
      else
        let safe_current_working_directory_size =
              (if query_fails os then 0 else length (working_directory os) + 1);
            os1 = log_call os GET_CURRENT_DIRECTORY
        in if safe_current_working_directory_size = 0 then
             (Inl (error_set RUNTIME_ERROR_GET_FAILED
                    ''libcpath_path_get_current_working_directory: unable to retrieve current working directory size.''), os1)
           else if safe_current_working_directory_size > SSIZE_MAX then
             (Inl (error_set RUNTIME_ERROR_VALUE_OUT_OF_BOUNDS
                    ''libcpath_path_get_current_working_directory: current working directory size value out of bounds.''), os1)
           else if narrow_string_allocate os safe_current_working_directory_size = NULL then
             (Inl (error_set MEMORY_ERROR_INSUFFICIENT
                    ''libcpath_path_get_current_working_directory: unable to create current working directory.''), os1)
           else
             (Inr (working_directory os, safe_current_working_directory_size),
              log_call os1 GET_CURRENT_DIRECTORY))"

text \<open>\<open>libcpath_path_change_directory\<close>, Windows variant (SetCurrentDirectoryA).\<close>

definition change_directory_windows :: "os \<Rightarrow> string ptr \<Rightarrow> (error + unit) \<times> os" where
  "change_directory_windows os directory_name =
     (case directory_name of
        NULL \<Rightarrow> (Inl (error_set ARGUMENT_ERROR_INVALID_VALUE
                   ''libcpath_path_change_directory: invalid directory name.''), os)
      | Ptr name \<Rightarrow>
          (case directory_of os name of
             None \<Rightarrow> (Inl (error_set RUNTIME_ERROR_SET_FAILED
                        ''libcpath_path_change_directory: unable to change directory.''),
                      log_call os (SET_CURRENT_DIRECTORY name))
           | Some d \<Rightarrow> (Inr (), log_call (os \<lparr> working_directory := d \<rparr>)
                                   (SET_CURRENT_DIRECTORY name))))"

text \<open>
  The last step of \<open>libcpath_path_get_current_working_directory_by_volume\<close>: change back
  to the directory saved before the volume switch, if there is one.
\<close>

definition restore_directory ::
  "os \<Rightarrow> string ptr \<Rightarrow> (error + (string \<times> nat)) \<Rightarrow> (error + (string \<times> nat)) \<times> os" where
  "restore_directory os current_volume_working_directory result =
     (case current_volume_working_directory of
        NULL \<Rightarrow> (result, os)
      | Ptr saved \<Rightarrow>
          (case change_directory_windows os (Ptr saved) of
             (Inl e, os') \<Rightarrow>
               (Inl (error_add
                      (case result of
                         Inl e0 \<Rightarrow> Error (code e0) (messages e0 @ messages e)
                       | Inr _ \<Rightarrow> e)
                      RUNTIME_ERROR_SET_FAILED
                      ''libcpath_path_get_current_working_directory_by_volume: unable to change current working directory.''),
                os')
           | (Inr _, os') \<Rightarrow> (result, os')))"

text \<open>
  Reading the directory and changing back: the part of
  \<open>libcpath_path_get_current_working_directory_by_volume\<close> after the volume switch.
\<close>

definition read_directory ::
  "os \<Rightarrow> string ptr ptr \<Rightarrow> nat ptr \<Rightarrow> string ptr \<Rightarrow> (error + (string \<times> nat)) \<times> os" where
  "read_directory os current_working_directory current_working_directory_size saved =
     (case get_current_working_directory_windows os current_working_directory
             current_working_directory_size of
        (Inl e, os') \<Rightarrow>
          restore_directory os' saved
            (Inl (error_add e RUNTIME_ERROR_GET_FAILED
               ''libcpath_path_get_current_working_directory_by_volume: unable to retrieve current directory.''))
      | (Inr r, os') \<Rightarrow> restore_directory os' saved (Inr r))"

text \<open>The volume switch: save the directory, then change to the volume.\<close>

definition switch_volume :: "os \<Rightarrow> string \<Rightarrow> nat \<Rightarrow> (error + string) \<times> os" where
  "switch_volume os v volume_length =
     (case get_current_working_directory_windows os (Ptr NULL) (Ptr 0) of
        (Inl e, os1) \<Rightarrow>
          (Inl (error_add e RUNTIME_ERROR_GET_FAILED
                 ''libcpath_path_get_current_working_directory_by_volume: unable to retrieve current volume working directory.''), os1)
      | (Inr r, os1) \<Rightarrow>
          if narrow_string_allocate os1 (volume_length + 1) = NULL then
            (Inl (error_set MEMORY_ERROR_INSUFFICIENT
                   ''libcpath_path_get_current_working_directory_by_volume: unable to create change volume name.''), os1)
          else
            (case change_directory_windows os1 (Ptr (take volume_length v)) of
               (Inl e, os2) \<Rightarrow>
                 (Inl (error_add e RUNTIME_ERROR_SET_FAILED
                        ''libcpath_path_get_current_working_directory_by_volume: unable to change current working directory.''), os2)
             | (Inr u, os2) \<Rightarrow> (Inr (fst r), os2)))"

definition get_current_working_directory_by_volume ::
  "os \<Rightarrow> string ptr \<Rightarrow> nat \<Rightarrow> string ptr ptr \<Rightarrow> nat ptr \<Rightarrow> (error + (string \<times> nat)) \<times> os" where
  "get_current_working_directory_by_volume os volume volume_length
       current_working_directory current_working_directory_size =
     (if current_working_directory = NULL then
        (Inl (error_set ARGUMENT_ERROR_INVALID_VALUE
               ''libcpath_path_get_current_working_directory_by_volume: invalid current working directory.''), os)
      else if current_working_directory_size = NULL then
        (Inl (error_set ARGUMENT_ERROR_INVALID_VALUE
               ''libcpath_path_get_current_working_directory_by_volume: invalid current working directory size.''), os)
      else case volume of
        NULL \<Rightarrow>
          read_directory os current_working_directory current_working_directory_size NULL
      | Ptr v \<Rightarrow>
          if volume_length > SSIZE_MAX - 1 then
            (Inl (error_set ARGUMENT_ERROR_VALUE_EXCEEDS_MAXIMUM
                   ''libcpath_path_get_current_working_directory_by_volume: invalid volume name length value exceeds maximum.''), os)
          else
            (case switch_volume os v volume_length of
               (Inl e, os2) \<Rightarrow> (Inl e, os2)
             | (Inr saved, os2) \<Rightarrow>
                 read_directory os2 current_working_directory current_working_directory_size
                   (Ptr saved)))"

subsection \<open>Full-path resolver: the counting pass\<close>

text \<open>
  The local variables of \<open>libcpath_path_get_full_path\<close> that the loop over the path
  segments reads and updates. The loop is the same text in the POSIX and in the Windows
  variant of the function, so the model has it once.
\<close>

record resolve_state =
  path_split_string :: split_string
  current_directory_split_string :: "split_string ptr"
  current_directory_segment_index :: int
  last_used_path_segment_index :: int
  safe_full_path_size :: nat

text \<open>
  \<^verbatim>\<open>while( last_used_path_segment_index > 0 ) {
    last_used_path_segment_index--;
    get_segment_by_index( path_split_string, last_used_path_segment_index, ... );
    if( last_used_path_string_segment_size != 0 ) break; }\<close>
\<close>

fun find_previous_used :: "split_string \<Rightarrow> nat \<Rightarrow> error + nat" where
  "find_previous_used segments 0 = Inr 0"
| "find_previous_used segments (Suc n) =
     (case get_segment_by_index segments (int n) of
        Inl e \<Rightarrow> Inl (error_add e RUNTIME_ERROR_GET_FAILED
                  ''libcpath_path_get_full_path: unable to retrieve last used path string segment: %d.'')
      | Inr seg \<Rightarrow>
          if segment_size seg \<noteq> 0 then Inr n else find_previous_used segments n)"

text \<open>The branch of a \<open>..\<close> segment that removes the last working-directory segment.\<close>

definition pop_current_directory_segment :: "resolve_state \<Rightarrow> split_string \<Rightarrow> error + resolve_state" where
  "pop_current_directory_segment st cds =
     (case get_segment_by_index cds (current_directory_segment_index st) of
        Inl e \<Rightarrow> Inl (error_add e RUNTIME_ERROR_GET_FAILED
                  ''libcpath_path_get_full_path: unable to retrieve current working directory string segment: %d.'')
      | Inr NULL \<Rightarrow> Inl (error_set RUNTIME_ERROR_VALUE_MISSING
                  ''libcpath_path_get_full_path: missing current working directory string segment: %d.'')
      | Inr (Ptr s) \<Rightarrow>
          (case clear_segment_by_index cds (current_directory_segment_index st) of
             Inl e \<Rightarrow> Inl (error_add e RUNTIME_ERROR_SET_FAILED
                       ''libcpath_path_get_full_path: unable to set current working directory string segment: %d.'')
           | Inr cds' \<Rightarrow>
               Inr (st \<lparr> safe_full_path_size :=
                            size_sub (safe_full_path_size st) (segment_size (Ptr s)),
                          current_directory_split_string := Ptr cds',
                          current_directory_segment_index :=
                            current_directory_segment_index st - 1 \<rparr>)))"

text \<open>The branch of a \<open>..\<close> segment that removes the last used path segment.\<close>

definition pop_last_used_path_segment :: "resolve_state \<Rightarrow> error + resolve_state" where
  "pop_last_used_path_segment st =
     (case get_segment_by_index (path_split_string st) (last_used_path_segment_index st) of
        Inl e \<Rightarrow> Inl (error_add e RUNTIME_ERROR_GET_FAILED
                  ''libcpath_path_get_full_path: unable to retrieve last used path string segment: %d.'')
      | Inr NULL \<Rightarrow> Inl (error_set RUNTIME_ERROR_VALUE_MISSING
                  ''libcpath_path_get_full_path: missing last used path string string segment: %d.'')
      | Inr (Ptr s) \<Rightarrow>
          (case clear_segment_by_index (path_split_string st) (last_used_path_segment_index st) of
             Inl e \<Rightarrow> Inl (error_add e RUNTIME_ERROR_SET_FAILED
                       ''libcpath_path_get_full_path: unable to set path string segment: %d.'')
           | Inr segments \<Rightarrow>
               (case find_previous_used segments (nat (last_used_path_segment_index st)) of
                  Inl e \<Rightarrow> Inl e
                | Inr previous \<Rightarrow>
                    Inr (st \<lparr> safe_full_path_size :=
                                 size_sub (safe_full_path_size st) (segment_size (Ptr s)),
                               path_split_string := segments,
                               last_used_path_segment_index := int previous \<rparr>))))"

definition clear_path_segment :: "resolve_state \<Rightarrow> int \<Rightarrow> error + resolve_state" where
  "clear_path_segment st path_segment_index =
     (case clear_segment_by_index (path_split_string st) path_segment_index of
        Inl e \<Rightarrow> Inl (error_add e RUNTIME_ERROR_SET_FAILED
                  ''libcpath_path_get_full_path: unable to set path string segment: %d.'')
      | Inr segments \<Rightarrow> Inr (st \<lparr> path_split_string := segments \<rparr>))"

text \<open>The body of the loop over the path segments, for the segment at one index.\<close>

definition count_segment :: "resolve_state \<Rightarrow> int \<Rightarrow> error + resolve_state" where
  "count_segment st path_segment_index =
     (case get_segment_by_index (path_split_string st) path_segment_index of
        Inl e \<Rightarrow> Inl (error_add e RUNTIME_ERROR_GET_FAILED
                  ''libcpath_path_get_full_path: unable to retrieve path string segment: %d.'')
      | Inr NULL \<Rightarrow> Inl (error_set RUNTIME_ERROR_VALUE_MISSING
                  ''libcpath_path_get_full_path: missing path string segment: %d.'')
      | Inr (Ptr s) \<Rightarrow>
          let path_string_segment_size = segment_size (Ptr s) in
          if path_string_segment_size = 3 \<and> s ! 0 = CHR ''.'' \<and> s ! 1 = CHR ''.'' then
            (case (if current_directory_split_string st \<noteq> NULL
                      \<and> last_used_path_segment_index st = - 1 then
                     (case current_directory_split_string st of
                        Ptr cds \<Rightarrow> pop_current_directory_segment st cds
                      | NULL \<Rightarrow> Inr st)
                   else if last_used_path_segment_index st \<ge> 0 then
                     pop_last_used_path_segment st
                   else Inr st) of
               Inl e \<Rightarrow> Inl e
             | Inr st' \<Rightarrow> clear_path_segment st' path_segment_index)
          else if path_string_segment_size = 2 \<and> s ! 0 = CHR ''.'' then
            clear_path_segment st path_segment_index
          else if path_string_segment_size \<le> 1 then
            clear_path_segment st path_segment_index
          else
            Inr (st \<lparr> safe_full_path_size :=
                         size_add (safe_full_path_size st) path_string_segment_size,
                       last_used_path_segment_index := path_segment_index \<rparr>))"

text \<open>
  \<^verbatim>\<open>for( path_segment_index = 0; path_segment_index < path_number_of_segments;
       path_segment_index++ ) { ... }\<close>
\<close>

function count_segments :: "nat \<Rightarrow> nat \<Rightarrow> resolve_state \<Rightarrow> error + resolve_state" where
  "count_segments path_number_of_segments path_segment_index st =
     (if path_segment_index < path_number_of_segments then
        (case count_segment st (int path_segment_index) of
           Inl e \<Rightarrow> Inl e
         | Inr st' \<Rightarrow> count_segments path_number_of_segments (path_segment_index + 1) st')
      else Inr st)"
  by pat_completeness auto
termination
  by (relation "measure (\<lambda>(n, i, st). n - i)") auto

declare count_segments.simps [simp del]

subsection \<open>Full-path resolver: the write pass\<close>

text \<open>
  The loops that copy the surviving segments, each followed by a separator:
  \<^verbatim>\<open>for( index = 0; index < number_of_segments; index++ ) {
    get_segment_by_index( split_string, index, &segment, &segment_size );
    if( segment_size != 0 ) {
      narrow_string_copy( &full_path[ full_path_index ], segment, segment_size - 1 );
      full_path_index += segment_size - 1;
      full_path[ full_path_index ] = separator;
      full_path_index += 1; } }\<close>
  The index runs over the whole list, so retrieving the segment does not fail. The result
  is the buffer and \<open>full_path_index\<close> after the loop.
\<close>

fun write_segments :: "char \<Rightarrow> split_string \<Rightarrow> buffer \<Rightarrow> nat \<Rightarrow> buffer \<times> nat" where
  "write_segments sep [] b full_path_index = (b, full_path_index)"
| "write_segments sep (NULL # segments) b full_path_index =
     write_segments sep segments b full_path_index"
| "write_segments sep (Ptr s # segments) b full_path_index =
     write_segments sep segments
       (buffer_write
          (narrow_string_copy b full_path_index s (segment_size (Ptr s) - 1))
          (full_path_index + (segment_size (Ptr s) - 1)) sep)
       (full_path_index + (segment_size (Ptr s) - 1) + 1)"

record full_path_result =
  full_path :: buffer
  full_path_size :: nat

text \<open>
  The end of both variants: the working-directory segments (for a relative path), the
  path segments, and the terminator over the last separator,
  \<^verbatim>\<open>( *full_path )[ full_path_index - 1 ] = 0;\<close>
\<close>

definition write_directories ::
  "char \<Rightarrow> path_type \<Rightarrow> resolve_state \<Rightarrow> buffer \<Rightarrow> nat \<Rightarrow> full_path_result" where
  "write_directories sep type st b full_path_index =
     (let (b1, index1) =
            (case current_directory_split_string st of
               Ptr cds \<Rightarrow>
                 if type = LIBCPATH_TYPE_RELATIVE then write_segments sep cds b full_path_index
                 else (b, full_path_index)
             | NULL \<Rightarrow> (b, full_path_index));
          (b2, index2) = write_segments sep (path_split_string st) b1 index1
      in \<lparr> full_path = buffer_write b2 (size_sub index2 1) NUL,
           full_path_size = safe_full_path_size st \<rparr>)"

subsection \<open>Full-path resolver, POSIX variant\<close>

text \<open>
  The function after its argument checks and after the working directory was retrieved
  (\<open>NULL\<close> for an absolute path).
\<close>

definition posix_resolve :: "os \<Rightarrow> path_type \<Rightarrow> string ptr \<Rightarrow> string \<Rightarrow> error + full_path_result" where
  "posix_resolve os type current_directory p =
     (let cds = (case current_directory of
                   NULL \<Rightarrow> NULL
                 | Ptr cwd \<Rightarrow> Ptr (narrow_string_split cwd (CHR ''/'')));
          segments = narrow_string_split p (CHR ''/'')
      in case (if type = LIBCPATH_TYPE_ABSOLUTE then Inr 1
               else (case current_directory of
                       NULL \<Rightarrow> Inl (error_set RUNTIME_ERROR_VALUE_MISSING
                                 ''libcpath_path_get_full_path: missing current working directory.'')
                     | Ptr cwd \<Rightarrow>
                         if length cwd \<ge> 1 \<and> cwd ! (length cwd - 1) \<noteq> CHR ''/''
                         then Inr (size_add (length cwd) 1)
                         else Inr (length cwd))) of
           Inl e \<Rightarrow> Inl e
         | Inr initial_size \<Rightarrow>
             (case count_segments (length segments) 0
                     \<lparr> path_split_string = segments,
                       current_directory_split_string = cds,
                       current_directory_segment_index =
                         (case cds of NULL \<Rightarrow> 0 | Ptr c \<Rightarrow> int (length c) - 1),
                       last_used_path_segment_index = - 1,
                       safe_full_path_size = initial_size \<rparr> of
                Inl e \<Rightarrow> Inl e
              | Inr st \<Rightarrow>
                  (case narrow_string_allocate os (safe_full_path_size st) of
                     NULL \<Rightarrow> Inl (error_set MEMORY_ERROR_INSUFFICIENT
                               ''libcpath_path_get_full_path: unable to create full path.'')
                   | Ptr b \<Rightarrow>
                       if type = LIBCPATH_TYPE_ABSOLUTE then
                         Inr (write_directories (CHR ''/'') type st
                                (buffer_write (memory_set_zero b) 0 (CHR ''/'')) 1)
                       else
                         Inr (write_directories (CHR ''/'') type st (memory_set_zero b) 0))))"

definition get_full_path_posix ::
  "os \<Rightarrow> string ptr \<Rightarrow> string ptr ptr \<Rightarrow> nat ptr \<Rightarrow> (error + full_path_result) \<times> os" where
  "get_full_path_posix os path_in full_path_out full_path_size_out =
     (case path_in of
        NULL \<Rightarrow> (Inl (error_set ARGUMENT_ERROR_INVALID_VALUE
                   ''libcpath_path_get_full_path: invalid path.''), os)
      | Ptr p \<Rightarrow>
          if length p = 0 then
            (Inl (error_set ARGUMENT_ERROR_VALUE_ZERO_OR_LESS
                   ''libcpath_path_get_full_path: invalid path length is zero.''), os)
          else if length p > SSIZE_MAX - 1 then
            (Inl (error_set ARGUMENT_ERROR_VALUE_EXCEEDS_MAXIMUM
                   ''libcpath_path_get_full_path: invalid path length value exceeds maximum.''), os)
          else if full_path_out = NULL then
            (Inl (error_set ARGUMENT_ERROR_INVALID_VALUE
                   ''libcpath_path_get_full_path: invalid full path.''), os)
          else if full_path_out \<noteq> Ptr NULL then
            (Inl (error_set RUNTIME_ERROR_VALUE_ALREADY_SET
                   ''libcpath_path_get_full_path: invalid full path value already set.''), os)
          else if full_path_size_out = NULL then
            (Inl (error_set ARGUMENT_ERROR_INVALID_VALUE
                   ''libcpath_path_get_full_path: invalid full path size.''), os)
          else if p ! 0 = CHR ''/'' then
            (posix_resolve os LIBCPATH_TYPE_ABSOLUTE NULL p, os)
          else
            (case get_current_working_directory_posix os (Ptr NULL) (Ptr 0) of
               (Inl e, os') \<Rightarrow>
                 (Inl (error_add e RUNTIME_ERROR_GET_FAILED
                        ''libcpath_path_get_full_path: unable to retrieve current working directory.''), os')
             | (Inr r, os') \<Rightarrow>
                 (posix_resolve os' LIBCPATH_TYPE_RELATIVE (Ptr (fst r)) p, os')))"

subsection \<open>Full-path resolver, Windows variant\<close>

definition is_unc_type :: "path_type \<Rightarrow> bool" where
  "is_unc_type type \<longleftrightarrow>
     type = LIBCPATH_TYPE_EXTENDED_LENGTH_UNC \<or> type = LIBCPATH_TYPE_UNC"

text \<open>
  The test of the source before the working-directory lookup: ``if the path is a device
  path, an extended-length path or an UNC do not bother to lookup the current working
  directory''.
\<close>

definition needs_current_directory :: "path_type \<Rightarrow> bool" where
  "needs_current_directory type \<longleftrightarrow>
     type \<noteq> LIBCPATH_TYPE_DEVICE \<and> type \<noteq> LIBCPATH_TYPE_EXTENDED_LENGTH
   \<and> type \<noteq> LIBCPATH_TYPE_EXTENDED_LENGTH_UNC \<and> type \<noteq> LIBCPATH_TYPE_UNC"

text \<open>The predicted size before the loop over the path segments.\<close>

definition windows_initial_size ::
  "path_type \<Rightarrow> volume_name_result \<Rightarrow> string \<Rightarrow> nat \<Rightarrow> nat \<Rightarrow> nat" where
  "windows_initial_size type vol current_directory current_directory_size
       current_directory_name_index =
     (let size0 = 4;
          size1 = (if volume_name vol \<noteq> NULL
                   then size_add size0 (size_add (volume_name_length vol) 1) else size0);
          size2 = (if is_unc_type type then size_add size1 4 else size1)
      in if type = LIBCPATH_TYPE_RELATIVE
            \<and> current_directory_name_index < current_directory_size then
           (let size3 = size_add size2
                          (current_directory_size - (current_directory_name_index + 1))
            in if current_directory_size \<ge> 2
                  \<and> current_directory ! (current_directory_size - 2) \<noteq> BACKSLASH
               then size_add size3 1 else size3)
         else size2)"

text \<open>The prefix, the \<open>UNC\\<close> literal and the volume name with its separator.\<close>

definition write_windows_prefix ::
  "path_type \<Rightarrow> volume_name_result \<Rightarrow> buffer \<Rightarrow> buffer \<times> nat" where
  "write_windows_prefix type vol b =
     (let full_path_prefix =
            (if type = LIBCPATH_TYPE_DEVICE
             then [BACKSLASH, BACKSLASH, CHR ''.'', BACKSLASH]
             else [BACKSLASH, BACKSLASH, CHR ''?'', BACKSLASH]);
          b1 = narrow_string_copy b 0 full_path_prefix 4;
          index1 = 4;
          (b2, index2) =
            (if is_unc_type type
             then (narrow_string_copy b1 index1 (''UNC'' @ [BACKSLASH]) 4, index1 + 4)
             else (b1, index1))
      in case volume_name vol of
           NULL \<Rightarrow> (b2, index2)
         | Ptr v \<Rightarrow>
             (buffer_write (narrow_string_copy b2 index2 v (volume_name_length vol))
                (size_add index2 (volume_name_length vol)) BACKSLASH,
              size_add (size_add index2 (volume_name_length vol)) 1))"

text \<open>
  The characters that \<open>write_windows_prefix\<close> writes before the volume name: the prefix and,
  for the two UNC types, the \<open>UNC\\<close> literal.
\<close>

definition full_path_prefix :: "path_type \<Rightarrow> string" where
  "full_path_prefix type =
     (if type = LIBCPATH_TYPE_DEVICE
      then [BACKSLASH, BACKSLASH, CHR ''.'', BACKSLASH]
      else [BACKSLASH, BACKSLASH, CHR ''?'', BACKSLASH])
     @ (if is_unc_type type then ''UNC'' @ [BACKSLASH] else [])"

text \<open>
  The function after the path type, the volume name and (for a path that is not full)
  the working directory were determined. The current directory is \<open>NULL\<close> with the size
  and the name index 0 when it was not retrieved.
\<close>

definition windows_resolve ::
  "os \<Rightarrow> path_type \<Rightarrow> volume_name_result \<Rightarrow> string ptr \<Rightarrow> nat \<Rightarrow> nat \<Rightarrow> string \<Rightarrow> nat
     \<Rightarrow> error + full_path_result" where
  "windows_resolve os type vol current_directory current_directory_size
       current_directory_name_index p path_directory_name_index =
     (let cds = (case current_directory of
                   NULL \<Rightarrow> NULL
                 | Ptr cwd \<Rightarrow>
                     if current_directory_name_index < current_directory_size
                     then Ptr (narrow_string_split (drop current_directory_name_index cwd)
                                 BACKSLASH)
                     else NULL);
          segments = narrow_string_split (drop path_directory_name_index p) BACKSLASH;
          cwd = (case current_directory of NULL \<Rightarrow> [] | Ptr cwd \<Rightarrow> cwd)
      in case count_segments (length segments) 0
                \<lparr> path_split_string = segments,
                  current_directory_split_string = cds,
                  current_directory_segment_index =
                    (case cds of NULL \<Rightarrow> 0 | Ptr c \<Rightarrow> int (length c) - 1),
                  last_used_path_segment_index = - 1,
                  safe_full_path_size =
                    windows_initial_size type vol cwd current_directory_size
                      current_directory_name_index \<rparr> of
           Inl e \<Rightarrow> Inl e
         | Inr st \<Rightarrow>
             (case narrow_string_allocate os (safe_full_path_size st) of
                NULL \<Rightarrow> Inl (error_set MEMORY_ERROR_INSUFFICIENT
                          ''libcpath_path_get_full_path: unable to create full path.'')
              | Ptr b \<Rightarrow>
                  (case write_windows_prefix type vol (memory_set_zero b) of
                     (b', full_path_index) \<Rightarrow>
                       Inr (write_directories BACKSLASH type st b' full_path_index))))"

text \<open>
  The working-directory lookup of a path that is not full: the directory of the path's
  volume, and the volume name and directory name index of that directory.
\<close>

definition windows_resolve_in_current_directory ::
  "os \<Rightarrow> path_type \<Rightarrow> volume_name_result \<Rightarrow> string \<Rightarrow> (error + full_path_result) \<times> os" where
  "windows_resolve_in_current_directory os type vol p =
     (case get_current_working_directory_by_volume os (volume_name vol)
             (volume_name_length vol) (Ptr NULL) (Ptr 0) of
        (Inl e, os') \<Rightarrow>
          (Inl (error_add e RUNTIME_ERROR_GET_FAILED
                 ''libcpath_path_get_full_path: unable to retrieve current working directory by volume.''), os')
      | (Inr r, os') \<Rightarrow>
          (case get_volume_name (Ptr (fst r)) (Ptr (volume_name vol))
                  (Ptr (volume_name_length vol)) (Ptr 0) of
             Inl e \<Rightarrow>
               (Inl (error_add e RUNTIME_ERROR_GET_FAILED
                      ''libcpath_path_get_full_path: unable to determine volume name from current working directory.''), os')
           | Inr cvol \<Rightarrow>
               (windows_resolve os' type cvol (Ptr (fst r)) (snd r)
                  (directory_name_index cvol) p (directory_name_index vol), os')))"

definition get_full_path_windows ::
  "os \<Rightarrow> string ptr \<Rightarrow> string ptr ptr \<Rightarrow> nat ptr \<Rightarrow> (error + full_path_result) \<times> os" where
  "get_full_path_windows os path_in full_path_out full_path_size_out =
     (case path_in of
        NULL \<Rightarrow> (Inl (error_set ARGUMENT_ERROR_INVALID_VALUE
                   ''libcpath_path_get_full_path: invalid path.''), os)
      | Ptr p \<Rightarrow>
          if length p = 0 then
            (Inl (error_set ARGUMENT_ERROR_VALUE_ZERO_OR_LESS
                   ''libcpath_path_get_full_path: invalid path length is zero.''), os)
          else if length p > SSIZE_MAX - 1 then
            (Inl (error_set ARGUMENT_ERROR_VALUE_EXCEEDS_MAXIMUM
                   ''libcpath_path_get_full_path: invalid path length value exceeds maximum.''), os)
          else if full_path_out = NULL then
            (Inl (error_set ARGUMENT_ERROR_INVALID_VALUE
                   ''libcpath_path_get_full_path: invalid full path.''), os)
          else if full_path_out \<noteq> Ptr NULL then
            (Inl (error_set RUNTIME_ERROR_VALUE_ALREADY_SET
                   ''libcpath_path_get_full_path: invalid full path value already set.''), os)
          else if full_path_size_out = NULL then
            (Inl (error_set ARGUMENT_ERROR_INVALID_VALUE
                   ''libcpath_path_get_full_path: invalid full path size.''), os)
          else
            (case get_path_type (Ptr p) (Ptr LIBCPATH_TYPE_RELATIVE) of
               Inl e \<Rightarrow>
                 (Inl (error_add e RUNTIME_ERROR_GET_FAILED
                        ''libcpath_path_get_full_path: unable to determine path type.''), os)
             | Inr type \<Rightarrow>
                 (case get_volume_name (Ptr p) (Ptr NULL) (Ptr 0) (Ptr 0) of
                    Inl e \<Rightarrow>
                      (Inl (error_add e RUNTIME_ERROR_GET_FAILED
                             ''libcpath_path_get_full_path: unable to determine volume name.''), os)
                  | Inr vol \<Rightarrow>
                      if needs_current_directory type then
                        windows_resolve_in_current_directory os type vol p
                      else
                        (windows_resolve os type vol NULL 0 0 p (directory_name_index vol), os))))"

subsection \<open>Concrete inputs\<close>

text \<open>The device path \<open>\\.\PhysicalDrive0\<close>.\<close>

abbreviation physical_drive :: string where
  "physical_drive \<equiv> [BACKSLASH, BACKSLASH, CHR ''.'', BACKSLASH] @ ''PhysicalDrive0''"

text \<open>
  The operating system used where a statement is evaluated at a concrete input: every
  allocation succeeds, fresh memory holds \<open>#\<close>, the working directory is \<open>d\<close>, the change
  to a directory named \<open>name\<close> ends in the directory \<open>volumes name\<close>.
\<close>

definition example_os :: "string \<Rightarrow> (string \<Rightarrow> string option) \<Rightarrow> os" where
  "example_os d volumes =
     \<lparr> alloc_ok = (\<lambda>n. True), uninitialised = CHR ''#'', working_directory = d,
       query_fails = False, directory_of = volumes, os_calls = [] \<rparr>"












subsection \<open>Normalized paths\<close>

text \<open>
  The vocabulary of the statements about the resolver, following the spec's words: a path
  is a list of segments joined by the separator; a segment that the resolver elides is
  empty, \<open>.\<close> or \<open>..\<close>; every other segment without a separator is a name. A normalized
  path has names only.
\<close>

fun join_segments :: "char \<Rightarrow> string list \<Rightarrow> string" where
  "join_segments sep [] = []"
| "join_segments sep [s] = s"
| "join_segments sep (s # t # segments) = s @ sep # join_segments sep (t # segments)"

definition is_elided :: "string \<Rightarrow> bool" where
  "is_elided s \<longleftrightarrow> s = [] \<or> s = ''.'' \<or> s = ''..''"

definition is_name :: "char \<Rightarrow> string \<Rightarrow> bool" where
  "is_name sep s \<longleftrightarrow> \<not> is_elided s \<and> sep \<notin> set s"






section \<open>Helper lemmas\<close>

lemma replicate_numeral: "replicate (numeral k) x = x # replicate (pred_numeral k) x"
  by (simp add: numeral_eq_Suc)

lemma list_update_Cons_numeral: "(x # xs)[numeral k := y] = x # xs[pred_numeral k := y]"
  by (simp add: numeral_eq_Suc)

lemmas classifier_defs =
  get_path_type_def is_special_prefix_def is_unc_marker_def is_letter_def char_code_def
  SSIZE_MAX_def

lemmas volume_defs =
  get_volume_name_def volume_name_index_of_def volume_result_def is_special_prefix_def
  is_unc_marker_def is_letter_def char_code_def SSIZE_MAX_def size_sub_def

lemma nibble_line_feed_lower: "nibble_character (lower_nibble (CHR 0x0A)) = CHR '':''"
  by code_simp

lemma nibble_line_feed_upper: "nibble_character (upper_nibble (CHR 0x0A)) = CHR ''0''"
  by code_simp

lemma line_feed_size: "get_sanitized_character_size pf (CHR 0x0A) (Ptr n) = Inr 4"
  by (simp add: get_sanitized_character_size_def char_code_def)

lemma strip_trailing_le: "strip_trailing_separators sep d n \<le> n"
  by (induction n) auto

lemma strip_trailing_take:
  "n \<le> length d \<Longrightarrow>
   take (strip_trailing_separators sep d n) d = rev (dropWhile (\<lambda>c. c = sep) (rev (take n d)))"
proof (induction n)
  case 0
  then show ?case by simp
next
  case (Suc n)
  then have n: "n < length d" by simp
  then have t: "take (Suc n) d = take n d @ [d ! n]"
    by (simp add: take_Suc_conv_app_nth)
  show ?case
  proof (cases "d ! n = sep")
    case True
    with Suc t show ?thesis by simp
  next
    case False
    with t show ?thesis by simp
  qed
qed

lemma strip_trailing_length:
  "n \<le> length d \<Longrightarrow>
   strip_trailing_separators sep d n = length (dropWhile (\<lambda>c. c = sep) (rev (take n d)))"
proof -
  assume n: "n \<le> length d"
  have "length (take (strip_trailing_separators sep d n) d) = strip_trailing_separators sep d n"
    using strip_trailing_le [of sep d n] n by simp
  then show ?thesis using strip_trailing_take [OF n, of sep] by simp
qed

lemma strip_leading_drop:
  "i + n = length f \<Longrightarrow>
   strip_leading_separators sep f i n =
     (length f - length (dropWhile (\<lambda>c. c = sep) (drop i f)),
      length (dropWhile (\<lambda>c. c = sep) (drop i f)))"
proof (induction n arbitrary: i)
  case 0
  then show ?case by simp
next
  case (Suc n)
  then have i: "i < length f" by simp
  then have d: "drop i f = f ! i # drop (Suc i) f"
    by (simp add: Cons_nth_drop_Suc)
  show ?case
  proof (cases "f ! i = sep")
    case True
    with Suc d show ?thesis by simp
  next
    case False
    with Suc.prems d show ?thesis by simp
  qed
qed

lemma drop_length_dropWhile:
  "drop (length xs - length (dropWhile P xs)) xs = dropWhile P xs"
  by (induction xs) (auto simp: Suc_diff_le length_dropWhile_le)

lemma buffer_write_frontier:
  "i = length xs \<Longrightarrow>
   buffer_write \<lparr> cells = xs @ y # ys, violations = v \<rparr> i c
     = \<lparr> cells = xs @ c # ys, violations = v \<rparr>"
  by (simp add: buffer_write_def)

lemma buffer_write_string_frontier:
  "i = length xs \<Longrightarrow> length s \<le> length ys \<Longrightarrow>
   buffer_write_string \<lparr> cells = xs @ ys, violations = v \<rparr> i s
     = \<lparr> cells = xs @ s @ drop (length s) ys, violations = v \<rparr>"
proof (induction s arbitrary: xs ys i)
  case Nil
  then show ?case by simp
next
  case (Cons c cs)
  then obtain y ys' where ys: "ys = y # ys'" by (cases ys) auto
  have "buffer_write \<lparr> cells = xs @ ys, violations = v \<rparr> i c
          = \<lparr> cells = (xs @ [c]) @ ys', violations = v \<rparr>"
    using Cons.prems ys by (simp add: buffer_write_frontier)
  moreover have "buffer_write_string \<lparr> cells = (xs @ [c]) @ ys', violations = v \<rparr> (i + 1) cs
          = \<lparr> cells = (xs @ [c]) @ cs @ drop (length cs) ys', violations = v \<rparr>"
    using Cons.prems ys by (intro Cons.IH) auto
  ultimately show ?case using ys by simp
qed

lemma replicate_split_two:
  "replicate (a + b + 2) u = replicate a u @ u # replicate b u @ [u]"
  by (induction a) (simp_all add: replicate_append_same)

lemma size_add_small: "a + b < 2 ^ 64 \<Longrightarrow> size_add a b = a + b"
  by (simp add: size_add_def)

lemmas segment_defs = narrow_string_split_def segment_size_def get_segment_by_index_def
  clear_segment_by_index_def

lemma split_on_no_separator: "d \<notin> set s \<Longrightarrow> split_on d s = [s]"
  by (induction s) auto

lemma split_on_append_separator:
  "d \<notin> set s \<Longrightarrow> split_on d (s @ d # rest) = s # split_on d rest"
  by (induction s) auto

lemma split_on_join_segments:
  "segments \<noteq> [] \<Longrightarrow> \<forall>s \<in> set segments. d \<notin> set s \<Longrightarrow>
   split_on d (join_segments d segments) = segments"
proof (induction d segments rule: join_segments.induct)
  case (1 sep)
  then show ?case by simp
next
  case (2 sep s)
  then show ?case by (simp add: split_on_no_separator)
next
  case (3 sep s t segments)
  then show ?case by (simp add: split_on_append_separator)
qed

lemma length_join_segments:
  "segments \<noteq> [] \<Longrightarrow>
   length (join_segments d segments) + 1 = sum_list (map (\<lambda>s. length s + 1) segments)"
  by (induction d segments rule: join_segments.induct) auto

lemma concat_join_segments:
  "segments \<noteq> [] \<Longrightarrow>
   concat (map (\<lambda>s. s @ [d]) segments) = join_segments d segments @ [d]"
  by (induction d segments rule: join_segments.induct) auto

text \<open>One step of the counting loop.\<close>

lemma count_segment_elided:
  assumes "current_directory_split_string st = NULL"
    and "last_used_path_segment_index st = - 1"
    and "i < length (path_split_string st)"
    and "path_split_string st ! i = Ptr s"
    and "is_elided s"
  shows "count_segment st (int i) = Inr (st \<lparr> path_split_string := (path_split_string st)[i := NULL] \<rparr>)"
  using assms
  by (auto simp: count_segment_def is_elided_def segment_defs clear_path_segment_def)

lemma count_segment_name:
  assumes "i < length (path_split_string st)"
    and "path_split_string st ! i = Ptr s"
    and "\<not> is_elided s"
  shows "count_segment st (int i)
           = Inr (st \<lparr> safe_full_path_size := size_add (safe_full_path_size st) (length s + 1),
                       last_used_path_segment_index := int i \<rparr>)"
proof -
  from assms(3) have ne: "s \<noteq> []" and "s \<noteq> ''.''" and "s \<noteq> ''..''"
    by (auto simp: is_elided_def)
  then have a: "\<not> (length s = 2 \<and> s ! 0 = CHR ''.'' \<and> s ! 1 = CHR ''.'')"
    and b: "\<not> (length s = 1 \<and> s ! 0 = CHR ''.'')"
    by (cases s; cases "tl s"; cases "tl (tl s)"; auto)+
  show ?thesis
    using assms(1,2) a b ne
    by (auto simp: count_segment_def segment_defs Let_def)
qed

text \<open>The counting loop over a run of elided segments and over a run of names.\<close>

lemma count_segments_elided:
  assumes "current_directory_split_string st = NULL"
    and "last_used_path_segment_index st = - 1"
    and "path_split_string st = done @ map Ptr elided @ rest"
    and "\<forall>s \<in> set elided. is_elided s"
    and "n = length done + length elided + length rest"
  shows "count_segments n (length done) st
           = count_segments n (length done + length elided)
               (st \<lparr> path_split_string := done @ replicate (length elided) NULL @ rest \<rparr>)"
  using assms
proof (induction elided arbitrary: "done" st)
  case Nil
  then have "st \<lparr> path_split_string := done @ rest \<rparr> = st" by simp
  then show ?case by simp
next
  case (Cons s ss)
  let ?st1 = "st \<lparr> path_split_string := (done @ [NULL]) @ map Ptr ss @ rest \<rparr>"
  have step: "count_segment st (int (length done)) = Inr ?st1"
    using Cons.prems count_segment_elided [of st "length done" s] by simp
  have "count_segments n (length done) st = count_segments n (length done + 1) ?st1"
    using Cons.prems step by (subst count_segments.simps) simp
  also have "\<dots> = count_segments n (length (done @ [NULL]) + length ss)
                     (?st1 \<lparr> path_split_string := (done @ [NULL]) @ replicate (length ss) NULL @ rest \<rparr>)"
    using Cons.prems Cons.IH [of ?st1 "done @ [NULL]"] by simp
  finally show ?case by simp
qed

lemma count_segments_names:
  assumes "path_split_string st = done @ map Ptr names"
    and "\<forall>s \<in> set names. \<not> is_elided s"
    and "safe_full_path_size st + sum_list (map (\<lambda>s. length s + 1) names) < 2 ^ 64"
  shows "count_segments (length done + length names) (length done) st
           = Inr (st \<lparr> safe_full_path_size :=
                         safe_full_path_size st + sum_list (map (\<lambda>s. length s + 1) names),
                       last_used_path_segment_index :=
                         (if names = [] then last_used_path_segment_index st
                          else int (length done + length names) - 1) \<rparr>)"
  using assms
proof (induction names arbitrary: "done" st)
  case Nil
  then show ?case by (subst count_segments.simps) simp
next
  case (Cons s ss)
  let ?st1 = "st \<lparr> safe_full_path_size := safe_full_path_size st + (length s + 1),
                    last_used_path_segment_index := int (length done) \<rparr>"
  have small: "safe_full_path_size st + (length s + 1) < 2 ^ 64"
    using Cons.prems by simp
  have step: "count_segment st (int (length done)) = Inr ?st1"
    using Cons.prems small count_segment_name [of "length done" st s]
    by (simp add: size_add_small)
  have "count_segments (length done + length (s # ss)) (length done) st
          = count_segments (length (done @ [Ptr s]) + length ss) (length (done @ [Ptr s])) ?st1"
    using step by (subst count_segments.simps) simp
  also have "\<dots> = Inr (?st1 \<lparr> safe_full_path_size :=
                         safe_full_path_size ?st1 + sum_list (map (\<lambda>s. length s + 1) ss),
                       last_used_path_segment_index :=
                         (if ss = [] then last_used_path_segment_index ?st1
                          else int (length (done @ [Ptr s]) + length ss) - 1) \<rparr>)"
    using Cons.prems by (intro Cons.IH) (simp_all add: add.assoc)
  finally show ?case by (simp add: add.assoc)
qed

text \<open>The write loop: cleared segments are skipped, names are written with a separator.\<close>

lemma write_segments_cleared:
  "write_segments sep (replicate k NULL @ segments) b i = write_segments sep segments b i"
  by (induction k) auto

lemma write_segments_names:
  "i = length xs \<Longrightarrow> sum_list (map (\<lambda>s. length s + 1) names) \<le> length ys \<Longrightarrow>
   write_segments sep (map Ptr names) \<lparr> cells = xs @ ys, violations = v \<rparr> i
     = (\<lparr> cells = xs @ concat (map (\<lambda>s. s @ [sep]) names)
                   @ drop (sum_list (map (\<lambda>s. length s + 1) names)) ys,
          violations = v \<rparr>,
        i + sum_list (map (\<lambda>s. length s + 1) names))"
proof (induction names arbitrary: xs ys i)
  case Nil
  then show ?case by simp
next
  case (Cons s ss)
  have l: "length s < length ys" using Cons.prems by simp
  then obtain y ys' where d: "drop (length s) ys = y # ys'"
    by (cases "drop (length s) ys") auto
  have w1: "narrow_string_copy \<lparr> cells = xs @ ys, violations = v \<rparr> i s (length s)
              = \<lparr> cells = (xs @ s) @ y # ys', violations = v \<rparr>"
    using Cons.prems l d by (simp add: narrow_string_copy_def buffer_write_string_frontier)
  have w2: "buffer_write \<lparr> cells = (xs @ s) @ y # ys', violations = v \<rparr> (i + length s) sep
              = \<lparr> cells = (xs @ s @ [sep]) @ ys', violations = v \<rparr>"
    using Cons.prems buffer_write_frontier [of "i + length s" "xs @ s" y ys' v sep] by simp
  have ys': "ys' = drop (length s + 1) ys"
    using d by (metis Suc_eq_plus1 add.commute drop_Suc drop_drop list.sel(3) tl_drop)
  have "write_segments sep (map Ptr (s # ss)) \<lparr> cells = xs @ ys, violations = v \<rparr> i
          = write_segments sep (map Ptr ss) \<lparr> cells = (xs @ s @ [sep]) @ ys', violations = v \<rparr>
              (i + length s + 1)"
    by (simp add: segment_size_def w1 w2 del: append_assoc)
  also have "\<dots> = (\<lparr> cells = (xs @ s @ [sep]) @ concat (map (\<lambda>s. s @ [sep]) ss)
                   @ drop (sum_list (map (\<lambda>s. length s + 1) ss)) ys',
          violations = v \<rparr>,
        (i + length s + 1) + sum_list (map (\<lambda>s. length s + 1) ss))"
    using Cons.prems ys' by (intro Cons.IH) auto
  finally show ?case using ys' by (simp add: add.commute add.left_commute)
qed

lemma size_sub_small: "b \<le> a \<Longrightarrow> a < 2 ^ 64 \<Longrightarrow> size_sub a b = a - b"
  by (simp add: size_sub_def mod_if)

lemma sum_sizes_join:
  "names \<noteq> [] \<Longrightarrow>
   sum_list (map (\<lambda>s. length s + 1) names) \<le> length (join_segments d (elided @ names)) + 1"
proof -
  assume n: "names \<noteq> []"
  then have "length (join_segments d (elided @ names)) + 1
               = sum_list (map (\<lambda>s. length s + 1) (elided @ names))"
    by (intro length_join_segments) simp
  then show ?thesis by simp
qed

lemma is_elided_no_separator: "is_elided s \<Longrightarrow> CHR ''/'' \<notin> set s"
  by (auto simp: is_elided_def)

text \<open>
  The write pass of a path whose surviving segments are names, into a zero-filled buffer
  of the predicted size in which \<open>prefix\<close> was written already.
\<close>

lemma write_directories_names:
  assumes segs: "path_split_string st = replicate k NULL @ map Ptr names"
    and ne: "names \<noteq> []"
    and cwd: "type \<noteq> LIBCPATH_TYPE_RELATIVE \<or> current_directory_split_string st = NULL"
    and cells: "cells b = prefix @ replicate (sum_list (map (\<lambda>s. length s + 1) names)) NUL"
    and viol: "violations b = []"
    and i: "i = length prefix"
    and size: "safe_full_path_size st = length prefix + sum_list (map (\<lambda>s. length s + 1) names)"
    and small: "safe_full_path_size st < 2 ^ 64"
  shows "write_directories sep type st b i
         = \<lparr> full_path = \<lparr> cells = prefix @ join_segments sep names @ [NUL], violations = [] \<rparr>,
             full_path_size = length prefix + length (join_segments sep names) + 1 \<rparr>"
proof -
  let ?total = "sum_list (map (\<lambda>s. length s + 1) names)"
  have b: "b = \<lparr> cells = prefix @ replicate ?total NUL, violations = [] \<rparr>"
    using cells viol by (cases b) simp
  have total: "?total = length (join_segments sep names) + 1"
    using length_join_segments [OF ne, of sep] by simp
  have first: "(case current_directory_split_string st of
               Ptr cds \<Rightarrow>
                 if type = LIBCPATH_TYPE_RELATIVE then write_segments sep cds b i
                 else (b, i)
             | NULL \<Rightarrow> (b, i)) = (b, i)"
    using cwd by (auto split: ptr.splits)
  have ws: "write_segments sep (path_split_string st) b i
          = (\<lparr> cells = (prefix @ join_segments sep names) @ [sep], violations = [] \<rparr>,
             length prefix + ?total)"
    using ne
    by (simp add: segs b i write_segments_cleared write_segments_names concat_join_segments)
  have idx: "size_sub (length prefix + ?total) 1 = length (prefix @ join_segments sep names)"
    using size small total by (simp add: size_sub_small)
  have terminator:
    "buffer_write \<lparr> cells = (prefix @ join_segments sep names) @ [sep], violations = [] \<rparr>
          (size_sub (length prefix + ?total) 1) NUL
        = \<lparr> cells = (prefix @ join_segments sep names) @ [NUL], violations = [] \<rparr>"
    unfolding idx by (rule buffer_write_frontier) simp
  have "write_directories sep type st b i
          = \<lparr> full_path = \<lparr> cells = (prefix @ join_segments sep names) @ [NUL], violations = [] \<rparr>,
              full_path_size = safe_full_path_size st \<rparr>"
    unfolding write_directories_def
    by (simp only: Let_def first prod.case ws terminator)
  then show ?thesis using size total by simp
qed

lemma posix_resolve_absolute:
  assumes el: "\<forall>s \<in> set elided. is_elided s"
    and nm: "\<forall>s \<in> set names. is_name (CHR ''/'') s"
    and ne: "names \<noteq> []"
    and p: "p = CHR ''/'' # join_segments (CHR ''/'') (elided @ names)"
    and len: "length p \<le> SSIZE_MAX - 1"
    and alloc: "alloc_ok os (length (join_segments (CHR ''/'') names) + 2)"
  shows "posix_resolve os LIBCPATH_TYPE_ABSOLUTE NULL p
         = Inr \<lparr> full_path = \<lparr> cells = CHR ''/'' # join_segments (CHR ''/'') names @ [NUL],
                                violations = [] \<rparr>,
                 full_path_size = length (join_segments (CHR ''/'') names) + 2 \<rparr>"
proof -
  let ?sep = "CHR ''/''"
  let ?total = "sum_list (map (\<lambda>s. length s + 1) names)"
  let ?k = "Suc (length elided)"
  let ?st0 = "\<lparr> path_split_string = map Ptr ([] # elided @ names),
                 current_directory_split_string = NULL,
                 current_directory_segment_index = 0,
                 last_used_path_segment_index = - 1,
                 safe_full_path_size = 1 \<rparr>"
  let ?st1 = "?st0 \<lparr> path_split_string := replicate ?k NULL @ map Ptr names \<rparr>"
  let ?st2 = "?st1 \<lparr> safe_full_path_size := 1 + ?total,
                     last_used_path_segment_index := int (?k + length names) - 1 \<rparr>"
  let ?b = "buffer_write (memory_set_zero
              \<lparr> cells = replicate (1 + ?total) (uninitialised os), violations = [] \<rparr>) 0 ?sep"
  have nosep: "\<forall>s \<in> set (elided @ names). ?sep \<notin> set s"
    using el nm by (auto simp: is_name_def is_elided_no_separator)
  have split: "narrow_string_split p ?sep = map Ptr ([] # elided @ names)"
    using ne nosep by (simp add: p narrow_string_split_def split_on_join_segments)
  have total: "?total = length (join_segments ?sep names) + 1"
    using length_join_segments [OF ne, of ?sep] by simp
  have "?total \<le> length p"
    using sum_sizes_join [OF ne, of ?sep elided] by (simp add: p)
  then have small: "1 + ?total < 2 ^ 64"
    using len by (simp add: SSIZE_MAX_def)
  have c1: "count_segments (?k + length names) 0 ?st0 = count_segments (?k + length names) ?k ?st1"
    using el count_segments_elided [of ?st0 "[]" "[] # elided" "map Ptr names" "?k + length names"]
    by (simp add: is_elided_def)
  have c2: "count_segments (?k + length names) ?k ?st1 = Inr ?st2"
    using nm small count_segments_names [of ?st1 "replicate ?k NULL" names] ne
    by (simp add: is_name_def)
  have al: "narrow_string_allocate os (1 + ?total)
          = Ptr \<lparr> cells = replicate (1 + ?total) (uninitialised os), violations = [] \<rparr>"
    using alloc total by (simp add: narrow_string_allocate_def)
  have r: "posix_resolve os LIBCPATH_TYPE_ABSOLUTE NULL p
             = Inr (write_directories ?sep LIBCPATH_TYPE_ABSOLUTE ?st2 ?b 1)"
    using c1 c2 al by (simp add: posix_resolve_def split)
  have wd: "write_directories ?sep LIBCPATH_TYPE_ABSOLUTE ?st2 ?b 1
          = \<lparr> full_path = \<lparr> cells = [?sep] @ join_segments ?sep names @ [NUL], violations = [] \<rparr>,
              full_path_size = length [?sep] + length (join_segments ?sep names) + 1 \<rparr>"
    using ne small
    by (intro write_directories_names [where k = ?k])
       (simp_all add: memory_set_zero_def buffer_write_def)
  show ?thesis unfolding r wd by simp
qed

lemmas count_defs = count_segment_def clear_path_segment_def pop_current_directory_segment_def
  pop_last_used_path_segment_def size_add_def size_sub_def

lemmas write_defs = write_directories_def narrow_string_allocate_def memory_set_zero_def
  buffer_write_def narrow_string_copy_def

lemmas posix_defs = get_full_path_posix_def posix_resolve_def
  get_current_working_directory_posix_def PATH_MAX_def SSIZE_MAX_def log_call_def

lemma get_full_path_posix_absolute:
  assumes el: "\<forall>s \<in> set elided. is_elided s"
    and nm: "\<forall>s \<in> set names. is_name (CHR ''/'') s"
    and ne: "names \<noteq> []"
    and p: "p = CHR ''/'' # join_segments (CHR ''/'') (elided @ names)"
    and len: "length p \<le> SSIZE_MAX - 1"
    and alloc: "alloc_ok os (length (join_segments (CHR ''/'') names) + 2)"
  shows "get_full_path_posix os (Ptr p) (Ptr NULL) (Ptr n)
         = (Inr \<lparr> full_path = \<lparr> cells = CHR ''/'' # join_segments (CHR ''/'') names @ [NUL],
                                 violations = [] \<rparr>,
                  full_path_size = length (join_segments (CHR ''/'') names) + 2 \<rparr>, os)"
proof -
  have "\<not> SSIZE_MAX - 1 < length p" using len by simp
  moreover have "p \<noteq> []" "p ! 0 = CHR ''/''" using p by simp_all
  ultimately show ?thesis
    using posix_resolve_absolute [OF el nm ne p len alloc]
    by (simp add: get_full_path_posix_def)
qed

lemmas windows_defs = get_full_path_windows_def windows_resolve_def windows_initial_size_def
  write_windows_prefix_def is_unc_type_def needs_current_directory_def

lemma windows_resolve_allocator:
  "alloc_ok os = alloc_ok os' \<Longrightarrow>
   windows_resolve os type vol cd cd_size cd_index p p_index
     = windows_resolve os' type vol cd cd_size cd_index p p_index"
  by (simp add: windows_resolve_def narrow_string_allocate_def memory_set_zero_def Let_def
      split: sum.splits)

lemma get_full_path_windows_full_type:
  assumes "get_path_type (Ptr p) (Ptr LIBCPATH_TYPE_RELATIVE) = Inr type"
    and "\<not> needs_current_directory type"
  shows "snd (get_full_path_windows os (Ptr p) full_path_out full_path_size_out) = os"
    and "alloc_ok os = alloc_ok os' \<Longrightarrow>
         fst (get_full_path_windows os (Ptr p) full_path_out full_path_size_out)
           = fst (get_full_path_windows os' (Ptr p) full_path_out full_path_size_out)"
proof -
  show "snd (get_full_path_windows os (Ptr p) full_path_out full_path_size_out) = os"
    using assms by (simp add: get_full_path_windows_def split: sum.splits)
  assume "alloc_ok os = alloc_ok os'"
  then show "fst (get_full_path_windows os (Ptr p) full_path_out full_path_size_out)
           = fst (get_full_path_windows os' (Ptr p) full_path_out full_path_size_out)"
    using assms windows_resolve_allocator [of os os']
    by (simp add: get_full_path_windows_def split: sum.splits)
qed

lemma physical_drive_type:
  "get_path_type (Ptr physical_drive) (Ptr LIBCPATH_TYPE_RELATIVE) = Inr LIBCPATH_TYPE_DEVICE"
  by (simp add: classifier_defs)

lemma physical_drive_volume:
  "get_volume_name (Ptr physical_drive) (Ptr NULL) (Ptr 0) (Ptr 0)
     = Inr \<lparr> volume_name = Ptr ''PhysicalDrive0'', volume_name_length = 14,
             directory_name_index = 18 \<rparr>"
  by (simp add: volume_defs scan_separator.simps)

lemma physical_drive_count:
  "count_segments 1 0
     \<lparr> path_split_string = [Ptr []], current_directory_split_string = NULL,
       current_directory_segment_index = 0, last_used_path_segment_index = - 1,
       safe_full_path_size = 19 \<rparr>
   = Inr \<lparr> path_split_string = [NULL], current_directory_split_string = NULL,
       current_directory_segment_index = 0, last_used_path_segment_index = - 1,
       safe_full_path_size = 19 \<rparr>"
  by (simp add: count_segments.simps count_segment_def clear_path_segment_def segment_defs)

lemma physical_drive_size:
  "windows_initial_size LIBCPATH_TYPE_DEVICE
     \<lparr> volume_name = Ptr ''PhysicalDrive0'', volume_name_length = 14, directory_name_index = 18 \<rparr>
     [] 0 0 = 19"
  by (simp add: windows_initial_size_def is_unc_type_def size_add_def)

text \<open>The prefix and the volume name of a path that is not a UNC path.\<close>

lemma write_windows_prefix_volume:
  assumes v: "volume_name vol = Ptr v"
    and m: "volume_name_length vol = m" "m \<le> length v"
    and unc: "\<not> is_unc_type type"
    and cells: "cells b = replicate (4 + m + 1 + t) NUL"
    and viol: "violations b = []"
    and small: "4 + m + 1 < (2::nat) ^ 64"
  shows "write_windows_prefix type vol b
         = (\<lparr> cells = ((if type = LIBCPATH_TYPE_DEVICE
                         then [BACKSLASH, BACKSLASH, CHR ''.'', BACKSLASH]
                         else [BACKSLASH, BACKSLASH, CHR ''?'', BACKSLASH])
                        @ take m v @ [BACKSLASH]) @ replicate t NUL,
              violations = [] \<rparr>, 4 + m + 1)"
proof -
  define pfx where "pfx = (if type = LIBCPATH_TYPE_DEVICE
                           then [BACKSLASH, BACKSLASH, CHR ''.'', BACKSLASH]
                           else [BACKSLASH, BACKSLASH, CHR ''?'', BACKSLASH])"
  have lp: "length pfx = 4" by (simp add: pfx_def)
  have "replicate (4 + m + 1 + t) NUL
          = replicate 4 NUL @ replicate m NUL @ replicate 1 NUL @ replicate t NUL"
    by (simp only: replicate_add add.assoc append_assoc)
  then have "cells b = [] @ replicate 4 NUL @ replicate m NUL @ NUL # replicate t NUL"
    using cells by simp
  then have b: "b = \<lparr> cells = [] @ replicate 4 NUL @ replicate m NUL @ NUL # replicate t NUL,
                       violations = [] \<rparr>"
    using viol by (cases b) simp
  have w1: "narrow_string_copy b 0 pfx 4
              = \<lparr> cells = pfx @ replicate m NUL @ NUL # replicate t NUL, violations = [] \<rparr>"
    using buffer_write_string_frontier
      [of 0 "[]" pfx "replicate 4 NUL @ replicate m NUL @ NUL # replicate t NUL" "[]"] lp
    unfolding b by (simp add: narrow_string_copy_def)
  have w2: "narrow_string_copy
              \<lparr> cells = pfx @ replicate m NUL @ NUL # replicate t NUL, violations = [] \<rparr> 4 v m
            = \<lparr> cells = (pfx @ take m v) @ NUL # replicate t NUL, violations = [] \<rparr>"
    using buffer_write_string_frontier
      [of 4 pfx "take m v" "replicate m NUL @ NUL # replicate t NUL" "[]"] lp m(2)
    by (simp add: narrow_string_copy_def min_absorb2)
  have w3: "buffer_write \<lparr> cells = (pfx @ take m v) @ NUL # replicate t NUL, violations = [] \<rparr>
              (size_add 4 m) BACKSLASH
            = \<lparr> cells = (pfx @ take m v) @ BACKSLASH # replicate t NUL, violations = [] \<rparr>"
    using m(2) small lp by (intro buffer_write_frontier) (simp add: size_add_small)
  have idx: "size_add (size_add 4 m) 1 = 4 + m + 1"
    using small by (simp add: size_add_small)
  have "write_windows_prefix type vol b
         = (\<lparr> cells = (pfx @ take m v) @ BACKSLASH # replicate t NUL, violations = [] \<rparr>,
            4 + m + 1)"
    unfolding write_windows_prefix_def pfx_def [symmetric]
    by (simp only: Let_def w1 unc if_False prod.case v m(1) ptr.case w2 w3 idx)
  then show ?thesis by (simp add: pfx_def)
qed

text \<open>
  The write pass of a path without surviving segments: the terminator takes the place of
  the last character written before.
\<close>

lemma write_directories_cleared:
  assumes segs: "path_split_string st = replicate k NULL"
    and cwd: "type \<noteq> LIBCPATH_TYPE_RELATIVE \<or> current_directory_split_string st = NULL"
    and cells: "cells b = xs @ [c]"
    and viol: "violations b = []"
    and i: "i = length xs + 1"
    and small: "i < 2 ^ 64"
  shows "write_directories sep type st b i
         = \<lparr> full_path = \<lparr> cells = xs @ [NUL], violations = [] \<rparr>,
             full_path_size = safe_full_path_size st \<rparr>"
proof -
  have b: "b = \<lparr> cells = xs @ [c], violations = [] \<rparr>"
    using cells viol by (cases b) simp
  have first: "(case current_directory_split_string st of
               Ptr cds \<Rightarrow>
                 if type = LIBCPATH_TYPE_RELATIVE then write_segments sep cds b i
                 else (b, i)
             | NULL \<Rightarrow> (b, i)) = (b, i)"
    using cwd by (auto split: ptr.splits)
  have ws: "write_segments sep (path_split_string st) b i = (b, i)"
    using write_segments_cleared [of sep k "[]" b i] by (simp add: segs)
  have idx: "size_sub i 1 = length xs"
    using i small by (simp add: size_sub_small)
  have terminator: "buffer_write b (size_sub i 1) NUL = \<lparr> cells = xs @ [NUL], violations = [] \<rparr>"
    unfolding idx b by (rule buffer_write_frontier) simp
  show ?thesis
    unfolding write_directories_def
    by (simp only: Let_def first prod.case ws terminator)
qed

lemma physical_drive_resolve:
  assumes alloc: "alloc_ok os 19"
  shows "windows_resolve os LIBCPATH_TYPE_DEVICE
           \<lparr> volume_name = Ptr ''PhysicalDrive0'', volume_name_length = 14,
             directory_name_index = 18 \<rparr>
           NULL 0 0 physical_drive 18
         = Inr \<lparr> full_path = \<lparr> cells = physical_drive @ [NUL], violations = [] \<rparr>,
                 full_path_size = 19 \<rparr>"
proof -
  let ?vol = "\<lparr> volume_name = Ptr ''PhysicalDrive0'', volume_name_length = 14,
                 directory_name_index = 18 \<rparr>"
  let ?st = "\<lparr> path_split_string = [NULL], current_directory_split_string = NULL,
       current_directory_segment_index = 0, last_used_path_segment_index = - 1,
       safe_full_path_size = 19 \<rparr>"
  let ?b = "memory_set_zero \<lparr> cells = replicate 19 (uninitialised os), violations = [] \<rparr>"
  have seg: "narrow_string_split (drop 18 physical_drive) BACKSLASH = [Ptr []]"
    by (simp add: narrow_string_split_def)
  have r: "windows_resolve os LIBCPATH_TYPE_DEVICE ?vol NULL 0 0 physical_drive 18
         = (case write_windows_prefix LIBCPATH_TYPE_DEVICE ?vol ?b of
              (b', i) \<Rightarrow> Inr (write_directories BACKSLASH LIBCPATH_TYPE_DEVICE ?st b' i))"
    unfolding windows_resolve_def seg
    using alloc physical_drive_size physical_drive_count
    by (simp add: narrow_string_allocate_def)
  have wp: "write_windows_prefix LIBCPATH_TYPE_DEVICE ?vol ?b
         = (\<lparr> cells = ((if LIBCPATH_TYPE_DEVICE = LIBCPATH_TYPE_DEVICE
                         then [BACKSLASH, BACKSLASH, CHR ''.'', BACKSLASH]
                         else [BACKSLASH, BACKSLASH, CHR ''?'', BACKSLASH])
                        @ take 14 ''PhysicalDrive0'' @ [BACKSLASH]) @ replicate 0 NUL,
              violations = [] \<rparr>, 4 + 14 + 1)"
    by (rule write_windows_prefix_volume)
       (simp_all add: memory_set_zero_def is_unc_type_def)
  have wd: "write_directories BACKSLASH LIBCPATH_TYPE_DEVICE ?st
              \<lparr> cells = physical_drive @ [BACKSLASH], violations = [] \<rparr> 19
          = \<lparr> full_path = \<lparr> cells = physical_drive @ [NUL], violations = [] \<rparr>,
              full_path_size = safe_full_path_size ?st \<rparr>"
    by (rule write_directories_cleared [where k = 1]) simp_all
  show ?thesis
    unfolding r wp using wd by simp
qed

lemma physical_drive_full_path:
  assumes alloc: "alloc_ok os 19"
  shows "get_full_path_windows os (Ptr physical_drive) (Ptr NULL) (Ptr n)
     = (Inr \<lparr> full_path = \<lparr> cells = physical_drive @ [NUL], violations = [] \<rparr>,
               full_path_size = 19 \<rparr>, os)"
  using physical_drive_resolve [OF alloc] physical_drive_type physical_drive_volume
  by (simp add: get_full_path_windows_def needs_current_directory_def SSIZE_MAX_def)







text \<open>The classifier and the rules of the spec.\<close>

lemma is_letter_drive_letters: "is_letter c \<longleftrightarrow> c \<in> set drive_letters"
proof (cases c)
  case (Char x1 x2 x3 x4 x5 x6 x7 x8)
  show ?thesis
    unfolding Char is_letter_def char_code_def drive_letters_def
    by (cases x1; cases x2; cases x3; cases x4; cases x5; cases x6; cases x7; cases x8; simp)
qed

lemma starts_with_1: "starts_with [a] p \<longleftrightarrow> p \<noteq> [] \<and> p ! 0 = a"
  by (cases p) (auto simp: starts_with_def)

lemma starts_with_2:
  "starts_with [a, b] p \<longleftrightarrow> 2 \<le> length p \<and> p ! 0 = a \<and> p ! 1 = b"
  by (cases p; cases "tl p") (auto simp: starts_with_def)

lemma starts_with_3:
  "starts_with [a, b, c] p \<longleftrightarrow> 3 \<le> length p \<and> p ! 0 = a \<and> p ! 1 = b \<and> p ! 2 = c"
  by (cases p; cases "tl p"; cases "tl (tl p)") (auto simp: starts_with_def)

lemma starts_with_4:
  "starts_with [a, b, c, d] p
     \<longleftrightarrow> 4 \<le> length p \<and> p ! 0 = a \<and> p ! 1 = b \<and> p ! 2 = c \<and> p ! 3 = d"
  by (cases p; cases "tl p"; cases "tl (tl p)"; cases "tl (tl (tl p))")
     (auto simp: starts_with_def)

lemma starts_with_append:
  "starts_with (pre @ suf) p \<longleftrightarrow> starts_with pre p \<and> starts_with suf (drop (length pre) p)"
proof -
  have "take (length pre + length suf) p = pre @ suf
          \<longleftrightarrow> pre = take (length pre) (take (length pre + length suf) p)
              \<and> suf = drop (length pre) (take (length pre + length suf) p)"
    by (metis append_eq_conv_conj)
  then show ?thesis
    by (auto simp: starts_with_def drop_take)
qed

lemma starts_with_8:
  "starts_with ([a, b, c, d] @ [e, f, g, h]) p
     \<longleftrightarrow> 8 \<le> length p \<and> p ! 0 = a \<and> p ! 1 = b \<and> p ! 2 = c \<and> p ! 3 = d
         \<and> p ! 4 = e \<and> p ! 5 = f \<and> p ! 6 = g \<and> p ! 7 = h"
proof -
  have l: "length [a, b, c, d] = 4" by simp
  have "starts_with ([a, b, c, d] @ [e, f, g, h]) p
          \<longleftrightarrow> starts_with [a, b, c, d] p \<and> starts_with [e, f, g, h] (drop 4 p)"
    using starts_with_append [of "[a, b, c, d]" "[e, f, g, h]" p] unfolding l .
  then show ?thesis
    unfolding starts_with_4 by auto
qed

lemma drive_rule:
  "(\<exists>l \<in> set drive_letters. starts_with [l, CHR '':'', BACKSLASH] p)
     \<longleftrightarrow> 3 \<le> length p \<and> p ! 1 = CHR '':'' \<and> p ! 2 = BACKSLASH \<and> is_letter (p ! 0)"
  unfolding starts_with_3 is_letter_drive_letters by auto

lemma get_path_type_classify_path:
  assumes "p \<noteq> []" and "length p \<le> SSIZE_MAX - 1"
  shows "get_path_type (Ptr p) (Ptr t) = Inr (classify_path p)"
proof -
  have b: "\<not> SSIZE_MAX - 1 < length p" using assms(2) by simp
  have r: "classify_rules =
     [ (starts_with [BACKSLASH, BACKSLASH, CHR ''.'', BACKSLASH], LIBCPATH_TYPE_DEVICE),
       (starts_with ([BACKSLASH, BACKSLASH, CHR ''?'', BACKSLASH]
                     @ [CHR ''U'', CHR ''N'', CHR ''C'', BACKSLASH]),
          LIBCPATH_TYPE_EXTENDED_LENGTH_UNC),
       (starts_with [BACKSLASH, BACKSLASH, CHR ''?'', BACKSLASH], LIBCPATH_TYPE_EXTENDED_LENGTH),
       (starts_with [BACKSLASH, BACKSLASH], LIBCPATH_TYPE_UNC),
       (starts_with [BACKSLASH], LIBCPATH_TYPE_ABSOLUTE),
       (\<lambda>p. \<exists>l \<in> set drive_letters. starts_with [l, CHR '':'', BACKSLASH] p,
          LIBCPATH_TYPE_ABSOLUTE) ]"
    by (simp add: classify_rules_def)
  show ?thesis
    unfolding get_path_type_def classify_path_def r first_match.simps
      starts_with_8 starts_with_4 starts_with_2 starts_with_1 drive_rule
      is_special_prefix_def is_unc_marker_def
    using assms(1) b by auto
qed

































section \<open>The claims\<close>

subsection \<open>Path classifier\<close>

text \<open>
  C5: the classifier applies its rules in order and the first rule that matches decides.
  For every path that the function accepts its result is the first match in the list of
  rules of the spec: \<open>\\.\\<close> gives Device, \<open>\\?\UNC\\<close> ExtendedLengthUNC, \<open>\\?\\<close>
  ExtendedLength, \<open>\\\<close> UNC, \<open>\\<close> Absolute, a letter followed by \<open>:\\<close> Absolute, and
  anything else is Relative. In particular it returns Absolute for \<open>C:\foo\<close> and for
  \<open>\foo\<close>, Relative for \<open>foo\bar\<close>, UNC for \<open>\\server\share\<close>, ExtendedLength for
  \<open>\\?\C:\foo\<close>, ExtendedLengthUNC for \<open>\\?\UNC\server\share\<close> and Device for
  \<open>\\.\PhysicalDrive0\<close>.
\<close>

theorem C5_classification_table:
  "(p \<noteq> [] \<and> length p \<le> SSIZE_MAX - 1
      \<longrightarrow> get_path_type (Ptr p) (Ptr t) = Inr (classify_path p))
   \<and> get_path_type (Ptr (''C:'' @ [BACKSLASH] @ ''foo'')) (Ptr LIBCPATH_TYPE_RELATIVE)
     = Inr LIBCPATH_TYPE_ABSOLUTE
   \<and> get_path_type (Ptr ([BACKSLASH] @ ''foo'')) (Ptr LIBCPATH_TYPE_RELATIVE)
     = Inr LIBCPATH_TYPE_ABSOLUTE
   \<and> get_path_type (Ptr (''foo'' @ [BACKSLASH] @ ''bar'')) (Ptr LIBCPATH_TYPE_RELATIVE)
     = Inr LIBCPATH_TYPE_RELATIVE
   \<and> get_path_type (Ptr ([BACKSLASH, BACKSLASH] @ ''server'' @ [BACKSLASH] @ ''share''))
       (Ptr LIBCPATH_TYPE_RELATIVE)
     = Inr LIBCPATH_TYPE_UNC
   \<and> get_path_type (Ptr ([BACKSLASH, BACKSLASH, CHR ''?'', BACKSLASH] @ ''C:'' @ [BACKSLASH] @ ''foo''))
       (Ptr LIBCPATH_TYPE_RELATIVE)
     = Inr LIBCPATH_TYPE_EXTENDED_LENGTH
   \<and> get_path_type
       (Ptr ([BACKSLASH, BACKSLASH, CHR ''?'', BACKSLASH] @ ''UNC'' @ [BACKSLASH] @ ''server''
             @ [BACKSLASH] @ ''share''))
       (Ptr LIBCPATH_TYPE_RELATIVE)
     = Inr LIBCPATH_TYPE_EXTENDED_LENGTH_UNC
   \<and> get_path_type (Ptr ([BACKSLASH, BACKSLASH, CHR ''.'', BACKSLASH] @ ''PhysicalDrive0''))
       (Ptr LIBCPATH_TYPE_RELATIVE)
     = Inr LIBCPATH_TYPE_DEVICE"
proof (intro conjI impI)
  assume "p \<noteq> [] \<and> length p \<le> SSIZE_MAX - 1"
  then show "get_path_type (Ptr p) (Ptr t) = Inr (classify_path p)"
    using get_path_type_classify_path [of p t] by simp
qed (simp_all add: classifier_defs)

theorem C5_classification_table_witness:
  "get_path_type
       (Ptr ([BACKSLASH, BACKSLASH, CHR ''.'', BACKSLASH] @ ''UNC'' @ [BACKSLASH] @ ''server''))
       (Ptr LIBCPATH_TYPE_RELATIVE)
     = Inr (classify_path
             ([BACKSLASH, BACKSLASH, CHR ''.'', BACKSLASH] @ ''UNC'' @ [BACKSLASH] @ ''server''))
   \<and> classify_path
         ([BACKSLASH, BACKSLASH, CHR ''.'', BACKSLASH] @ ''UNC'' @ [BACKSLASH] @ ''server'')
       = LIBCPATH_TYPE_DEVICE
   \<and> get_path_type (Ptr ([BACKSLASH, BACKSLASH, CHR ''?'', BACKSLASH] @ ''x''))
       (Ptr LIBCPATH_TYPE_RELATIVE)
     = Inr (classify_path ([BACKSLASH, BACKSLASH, CHR ''?'', BACKSLASH] @ ''x''))
   \<and> classify_path ([BACKSLASH, BACKSLASH, CHR ''?'', BACKSLASH] @ ''x'')
       = LIBCPATH_TYPE_EXTENDED_LENGTH"
proof -
  have a: "get_path_type
       (Ptr ([BACKSLASH, BACKSLASH, CHR ''.'', BACKSLASH] @ ''UNC'' @ [BACKSLASH] @ ''server''))
       (Ptr LIBCPATH_TYPE_RELATIVE)
     = Inr (classify_path
             ([BACKSLASH, BACKSLASH, CHR ''.'', BACKSLASH] @ ''UNC'' @ [BACKSLASH] @ ''server''))"
    by (rule C5_classification_table [THEN conjunct1, THEN mp]) (simp add: SSIZE_MAX_def)
  have b: "get_path_type (Ptr ([BACKSLASH, BACKSLASH, CHR ''?'', BACKSLASH] @ ''x''))
       (Ptr LIBCPATH_TYPE_RELATIVE)
     = Inr (classify_path ([BACKSLASH, BACKSLASH, CHR ''?'', BACKSLASH] @ ''x''))"
    by (rule C5_classification_table [THEN conjunct1, THEN mp]) (simp add: SSIZE_MAX_def)
  have c: "classify_path
         ([BACKSLASH, BACKSLASH, CHR ''.'', BACKSLASH] @ ''UNC'' @ [BACKSLASH] @ ''server'')
       = LIBCPATH_TYPE_DEVICE"
    "classify_path ([BACKSLASH, BACKSLASH, CHR ''?'', BACKSLASH] @ ''x'')
       = LIBCPATH_TYPE_EXTENDED_LENGTH"
    by (simp_all add: classify_path_def classify_rules_def starts_with_def)
  from a b c show ?thesis by blast
qed

text \<open>
  C2: a UNC path whose server name is not followed by a separator should fail with the
  missing-share-name error. The code does not: for \<open>\\server\<close> the first scan ends with
  \<open>share_name_index = path_length\<close>, the test \<open>share_name_index > path_length\<close> is false,
  and the function returns the volume name \<open>server\<close>.
\<close>

theorem C2_server_without_share_is_accepted:
  "get_volume_name (Ptr ([BACKSLASH, BACKSLASH] @ ''server'')) (Ptr NULL) (Ptr 0) (Ptr 0)
     = Inr \<lparr> volume_name = Ptr ''server'', volume_name_length = 6, directory_name_index = 8 \<rparr>"
  by (simp add: volume_defs scan_separator.simps)

text \<open>
  C8, as stated: a path whose length is \<open>SSIZE_MAX\<close> lies in \<open>[1, SIZE_MAX - 1]\<close>, and the
  classifier rejects it with an argument error.
\<close>

theorem C8_length_SSIZE_MAX_is_rejected:
  "1 \<le> length (replicate SSIZE_MAX (CHR ''a''))
   \<and> length (replicate SSIZE_MAX (CHR ''a'')) \<le> SIZE_MAX - 1
   \<and> get_path_type (Ptr (replicate SSIZE_MAX (CHR ''a''))) (Ptr LIBCPATH_TYPE_RELATIVE)
       = Inl (error_set ARGUMENT_ERROR_VALUE_EXCEEDS_MAXIMUM
               ''libcpath_path_get_path_type: invalid path length value exceeds maximum.'')
   \<and> error_kind_of (error_set ARGUMENT_ERROR_VALUE_EXCEEDS_MAXIMUM
         ''libcpath_path_get_path_type: invalid path length value exceeds maximum.'')
       = InvalidArgument"
  by (simp add: get_path_type_def SSIZE_MAX_def SIZE_MAX_def error_kind_of_def error_set_def)

text \<open>
  C8, amended: the bound of both functions is \<open>SSIZE_MAX - 1\<close>, and a null output pointer
  is an invalid argument too. The classifier succeeds exactly for a non-null path with a
  length in \<open>[1, SSIZE_MAX - 1]\<close> and a non-null output pointer; the classifier and the
  volume name function fail with an InvalidArgument error exactly when the path is null,
  its length is zero or beyond \<open>SSIZE_MAX - 1\<close>, or an output pointer is null.
\<close>

theorem C8_argument_validation:
  "((\<exists>t. get_path_type path_in type_out = Inr t) \<longleftrightarrow>
      (\<exists>p. path_in = Ptr p \<and> 1 \<le> length p \<and> length p \<le> SSIZE_MAX - 1) \<and> type_out \<noteq> NULL)
   \<and> ((\<exists>e. get_path_type path_in type_out = Inl e \<and> error_kind_of e = InvalidArgument) \<longleftrightarrow>
      path_in = NULL \<or> (\<exists>p. path_in = Ptr p \<and> (length p = 0 \<or> length p > SSIZE_MAX - 1))
      \<or> type_out = NULL)
   \<and> ((\<exists>e. get_volume_name path_in name_out length_out index_out = Inl e
            \<and> error_kind_of e = InvalidArgument) \<longleftrightarrow>
      path_in = NULL \<or> (\<exists>p. path_in = Ptr p \<and> (length p = 0 \<or> length p > SSIZE_MAX - 1))
      \<or> name_out = NULL \<or> length_out = NULL \<or> index_out = NULL)"
proof (intro conjI)
  show "(\<exists>t. get_path_type path_in type_out = Inr t) \<longleftrightarrow>
      (\<exists>p. path_in = Ptr p \<and> 1 \<le> length p \<and> length p \<le> SSIZE_MAX - 1) \<and> type_out \<noteq> NULL"
    by (cases path_in) (auto simp: get_path_type_def Suc_le_eq)
  show "(\<exists>e. get_path_type path_in type_out = Inl e \<and> error_kind_of e = InvalidArgument) \<longleftrightarrow>
      path_in = NULL \<or> (\<exists>p. path_in = Ptr p \<and> (length p = 0 \<or> length p > SSIZE_MAX - 1))
      \<or> type_out = NULL"
    by (cases path_in) (auto simp: get_path_type_def error_kind_of_def error_set_def)
  show "(\<exists>e. get_volume_name path_in name_out length_out index_out = Inl e
            \<and> error_kind_of e = InvalidArgument) \<longleftrightarrow>
      path_in = NULL \<or> (\<exists>p. path_in = Ptr p \<and> (length p = 0 \<or> length p > SSIZE_MAX - 1))
      \<or> name_out = NULL \<or> length_out = NULL \<or> index_out = NULL"
    by (cases path_in)
       (auto simp: get_volume_name_def error_kind_of_def error_set_def Let_def)
qed

theorem C8_argument_validation_witness:
  "(\<exists>t. get_path_type (Ptr ''a'') (Ptr LIBCPATH_TYPE_RELATIVE) = Inr t)
   \<and> \<not> (\<exists>e. get_volume_name (Ptr ''a'') (Ptr NULL) (Ptr 0) (Ptr 0) = Inl e
            \<and> error_kind_of e = InvalidArgument)"
  using C8_argument_validation [of "Ptr ''a''" "Ptr LIBCPATH_TYPE_RELATIVE" "Ptr NULL" "Ptr 0" "Ptr 0"]
  by (simp add: SSIZE_MAX_def)

subsection \<open>Sanitizer\<close>

text \<open>
  C3: a control or reserved character should be written as the escape character, \<open>x\<close>
  and the two lowercase hex digits of its code. The code tests \<open>nibble > 10\<close>, so a nibble
  of 10 is written as the character after \<open>9\<close>, a colon, and not as \<open>a\<close>: the line feed
  (code \<open>0x0a\<close>) has the size 4 and is written as escape, \<open>x\<close>, \<open>0\<close>, colon, by the character
  function and by the filename sanitizer.
\<close>

theorem C3_line_feed_is_not_lowercase_hex:
  "get_sanitized_character_size pf (CHR 0x0A) (Ptr 0) = Inr 4
   \<and> sanitized_characters pf (CHR 0x0A) 4
       = [LIBCPATH_ESCAPE_CHARACTER pf, CHR ''x'', CHR ''0'', CHR '':'']
   \<and> get_sanitized_filename posix_platform (example_os [] Map.empty) (Ptr [CHR 0x0A]) (Ptr NULL) (Ptr 0)
       = Inr \<lparr> sanitized = \<lparr> cells = [BACKSLASH, CHR ''x'', CHR ''0'', CHR '':'', NUL],
                             violations = [] \<rparr>,
               sanitized_size = 5 \<rparr>"
proof (intro conjI)
  show "get_sanitized_character_size pf (CHR 0x0A) (Ptr 0) = Inr 4"
    by (rule line_feed_size)
  show "sanitized_characters pf (CHR 0x0A) 4
       = [LIBCPATH_ESCAPE_CHARACTER pf, CHR ''x'', CHR ''0'', CHR '':'']"
    by (simp add: sanitized_characters_def nibble_line_feed_lower nibble_line_feed_upper)
  show "get_sanitized_filename posix_platform (example_os [] Map.empty) (Ptr [CHR 0x0A]) (Ptr NULL) (Ptr 0)
       = Inr \<lparr> sanitized = \<lparr> cells = [BACKSLASH, CHR ''x'', CHR ''0'', CHR '':'', NUL],
                             violations = [] \<rparr>,
               sanitized_size = 5 \<rparr>"
    by (simp add: get_sanitized_filename_def example_os_def posix_platform_def SSIZE_MAX_def
        filename_character_size_def line_feed_size get_sanitized_character_def
        sanitized_characters_def nibble_line_feed_lower nibble_line_feed_upper size_add_def
        narrow_string_allocate_def buffer_write_def replicate_numeral list_update_Cons_numeral)
qed

text \<open>
  C10: for every character, on every platform, the size function succeeds with a size of
  1, 2 or 4; the size is 1 exactly when the character is written unchanged, that is when
  it is no control character, not the escape character, not \<open>/\<close> on Windows and not
  reserved; and with that size the character function never takes its branch for an
  invalid size.
\<close>

theorem C10_sanitized_character_size:
  "\<exists>n. get_sanitized_character_size pf c (Ptr old) = Inr n
     \<and> (n = 1 \<or> n = 2 \<or> n = 4)
     \<and> (n = 1 \<longleftrightarrow> sanitized_characters pf c n = [c])
     \<and> (n = 1 \<longleftrightarrow> \<not> char_code c \<le> 0x1F \<and> c \<noteq> LIBCPATH_ESCAPE_CHARACTER pf
                   \<and> \<not> (WINAPI pf \<and> c = CHR ''/'') \<and> \<not> is_reserved_character c)
     \<and> (\<forall>sanitized_path sanitized_path_size sanitized_path_index.
           get_sanitized_character pf c n sanitized_path sanitized_path_size sanitized_path_index
           \<noteq> Inl (error_set ARGUMENT_ERROR_VALUE_OUT_OF_BOUNDS
                 ''libcpath_path_get_sanitized_character: invalid sanitized character size value out of bounds.''))"
  by (auto simp: get_sanitized_character_size_def sanitized_characters_def
      get_sanitized_character_def error_set_def split: ptr.splits)

theorem C10_sanitized_character_size_witness:
  "get_sanitized_character_size posix_platform (CHR ''a'') (Ptr 0) = Inr 1
   \<and> sanitized_characters posix_platform (CHR ''a'') 1 = ''a''"
  using C10_sanitized_character_size [of posix_platform "CHR ''a''" 0]
  by (auto simp: get_sanitized_character_size_def posix_platform_def char_code_def
      is_reserved_character_def sanitized_characters_def)

subsection \<open>Joiner\<close>

text \<open>
  C7: for a directory name and a filename that are not longer than \<open>SSIZE_MAX\<close> (and whose
  lengths with 2 more fit into \<open>size_t\<close>), an empty output slot and a successful
  allocation, the joiner returns the directory name without its trailing separators, one
  separator, the filename without its leading separators and the terminator; the size is
  the sum of the two stripped lengths and 2. When both names are empty or consist of
  separators only, the path is a single separator.
\<close>

theorem C7_join:
  assumes d': "d' = rev (dropWhile (\<lambda>c. c = LIBCPATH_SEPARATOR pf) (rev d))"
    and f': "f' = dropWhile (\<lambda>c. c = LIBCPATH_SEPARATOR pf) f"
    and ld: "length d \<le> SSIZE_MAX" and lf: "length f \<le> SSIZE_MAX"
    and fits: "length d + length f + 2 \<le> SIZE_MAX"
    and alloc: "alloc_ok os (length d' + length f' + 2)"
  shows "join pf os (Ptr NULL) (Ptr n) (Ptr d) (Ptr f)
           = Inr \<lparr> joined_path = \<lparr> cells = d' @ [LIBCPATH_SEPARATOR pf] @ f' @ [NUL],
                                    violations = [] \<rparr>,
                   joined_path_size = length d' + length f' + 2 \<rparr>
         \<and> (set d \<subseteq> {LIBCPATH_SEPARATOR pf} \<and> set f \<subseteq> {LIBCPATH_SEPARATOR pf} \<longrightarrow>
              d' @ [LIBCPATH_SEPARATOR pf] @ f' = [LIBCPATH_SEPARATOR pf])"
proof
  let ?sep = "LIBCPATH_SEPARATOR pf"
  have dl: "strip_trailing_separators ?sep d (length d) = length d'"
    using strip_trailing_length [of "length d" d ?sep] d' by simp
  have td: "take (length d') d = d'"
    using strip_trailing_take [of "length d" d ?sep] d' dl by simp
  have fl: "strip_leading_separators ?sep f 0 (length f) = (length f - length f', length f')"
    using strip_leading_drop [of 0 "length f" f ?sep] f' by simp
  have df: "drop (length f - length f') f = f'"
    using drop_length_dropWhile [of f "\<lambda>c. c = ?sep"] f' by simp
  have ld': "length d' \<le> length d"
    using d' length_dropWhile_le [of "\<lambda>c. c = ?sep" "rev d"] by simp
  have lf': "length f' \<le> length f"
    using f' length_dropWhile_le [of "\<lambda>c. c = ?sep" f] by simp
  have small: "length d' + length f' + 2 < 2 ^ 64"
    using ld' lf' fits by (simp add: SIZE_MAX_def)
  then have sz: "size_add (size_add (length d') (length f')) 2 = length d' + length f' + 2"
    by (simp add: size_add_small)
  have r: "replicate (length d' + length f' + 2) (uninitialised os)
      = [] @ replicate (length d') (uninitialised os) @ uninitialised os # replicate (length f') (uninitialised os) @ [uninitialised os]"
    by (simp only: replicate_split_two append_Nil)
  have w1: "narrow_string_copy \<lparr> cells = replicate (length d' + length f' + 2) (uninitialised os), violations = [] \<rparr> 0 d (length d')
     = \<lparr> cells = d' @ uninitialised os # replicate (length f') (uninitialised os) @ [uninitialised os], violations = [] \<rparr>"
    unfolding r using ld' td
    by (simp add: narrow_string_copy_def buffer_write_string_frontier del: append_Nil)
  have w2: "buffer_write \<lparr> cells = d' @ uninitialised os # replicate (length f') (uninitialised os) @ [uninitialised os], violations = [] \<rparr> (length d') ?sep
     = \<lparr> cells = (d' @ [?sep]) @ replicate (length f') (uninitialised os) @ [uninitialised os], violations = [] \<rparr>"
    by (simp add: buffer_write_frontier)
  have w3: "narrow_string_copy \<lparr> cells = (d' @ [?sep]) @ replicate (length f') (uninitialised os) @ [uninitialised os], violations = [] \<rparr> (length d' + 1) (drop (length f - length f') f) (length f')
     = \<lparr> cells = (d' @ [?sep] @ f') @ [uninitialised os], violations = [] \<rparr>"
    unfolding df
    by (simp add: narrow_string_copy_def buffer_write_string_frontier del: append_assoc)
  have w4: "buffer_write \<lparr> cells = (d' @ [?sep] @ f') @ [uninitialised os], violations = [] \<rparr> (length d' + 1 + length f') NUL
     = \<lparr> cells = (d' @ [?sep] @ f') @ [NUL], violations = [] \<rparr>"
    by (simp add: buffer_write_frontier del: append_assoc)
  have body: "buffer_write
      (narrow_string_copy
        (buffer_write
          (narrow_string_copy
            \<lparr> cells = replicate (length d' + length f' + 2) (uninitialised os), violations = [] \<rparr>
            0 d (length d'))
          (length d') ?sep)
        (length d' + 1) (drop (length f - length f') f) (length f'))
      (length d' + 1 + length f') NUL
     = \<lparr> cells = (d' @ [?sep] @ f') @ [NUL], violations = [] \<rparr>"
    by (simp only: w1 w2 w3 w4)
  have nd: "\<not> SSIZE_MAX < length d" and nf: "\<not> SSIZE_MAX < length f"
    using ld lf by simp_all
  have al: "narrow_string_allocate os (length d' + length f' + 2)
     = Ptr \<lparr> cells = replicate (length d' + length f' + 2) (uninitialised os), violations = [] \<rparr>"
    using alloc by (simp add: narrow_string_allocate_def)
  show "join pf os (Ptr NULL) (Ptr n) (Ptr d) (Ptr f)
           = Inr \<lparr> joined_path = \<lparr> cells = d' @ [?sep] @ f' @ [NUL], violations = [] \<rparr>,
                   joined_path_size = length d' + length f' + 2 \<rparr>"
    by (simp only: join_def ptr.case ptr.distinct ptr.inject nd nf dl fl sz al Let_def prod.case
        simp_thms if_True if_False body append_assoc)
  show "set d \<subseteq> {?sep} \<and> set f \<subseteq> {?sep} \<longrightarrow> d' @ [?sep] @ f' = [?sep]"
  proof
    assume a: "set d \<subseteq> {?sep} \<and> set f \<subseteq> {?sep}"
    then have "dropWhile (\<lambda>c. c = ?sep) (rev d) = []" "dropWhile (\<lambda>c. c = ?sep) f = []"
      by auto
    then show "d' @ [?sep] @ f' = [?sep]" unfolding d' f' by (simp only: rev.simps append_Nil append_Cons)
  qed
qed

theorem C7_join_witness:
  "join posix_platform (example_os [] Map.empty) (Ptr NULL) (Ptr 0) (Ptr ''/a/b/'') (Ptr ''/c'')
     = Inr \<lparr> joined_path = \<lparr> cells = ''/a/b/c'' @ [NUL], violations = [] \<rparr>,
             joined_path_size = 7 \<rparr>
   \<and> join posix_platform (example_os [] Map.empty) (Ptr NULL) (Ptr 0) (Ptr ''//'') (Ptr [])
     = Inr \<lparr> joined_path = \<lparr> cells = ''/'' @ [NUL], violations = [] \<rparr>,
             joined_path_size = 2 \<rparr>"
  using C7_join [of "''/a/b''" posix_platform "''/a/b/''" "''c''" "''/c''" "example_os [] Map.empty" 0]
    C7_join [of "[]" posix_platform "''//''" "[]" "[]" "example_os [] Map.empty" 0]
  by (simp add: posix_platform_def example_os_def SSIZE_MAX_def SIZE_MAX_def)

subsection \<open>The resolver on POSIX paths\<close>

text \<open>
  C1: the size predicted by the counting pass should be the number of characters that the
  write pass emits, terminator included, with every one of them inside the buffer. With
  the working directory \<open>/\<close> and the relative path \<open>foo\<close> the POSIX resolver predicts 5 (the
  length of the working directory, no separator added because it ends in one, and 4 for
  \<open>foo\<close>), allocates 5 characters and returns success, but the write pass emits a separator
  for each of the two empty segments of \<open>/\<close>: it fills the buffer with \<open>//foo\<close> and writes
  the last separator and the terminator at index 5, outside of the buffer.
\<close>

theorem C1_root_working_directory_overruns:
  "get_full_path_posix (example_os ''/'' Map.empty) (Ptr ''foo'') (Ptr NULL) (Ptr 0)
     = (Inr \<lparr> full_path = \<lparr> cells = ''//foo'',
                              violations = [WriteOutside 5 (CHR ''/''), WriteOutside 5 NUL] \<rparr>,
               full_path_size = 5 \<rparr>,
        (example_os ''/'' Map.empty) \<lparr> os_calls := [GETCWD] \<rparr>)"
  by (simp add: posix_defs segment_defs count_defs write_defs example_os_def count_segments.simps
      replicate_numeral list_update_Cons_numeral)

text \<open>
  C4: in the POSIX resolver a \<open>..\<close> segment met while there is no working-directory
  segment list and no earlier path segment was used (the last used index is still -1) is
  a pop without effect: the step succeeds, clears the segment and leaves the predicted
  size and the last used index as they are. So an absolute path that starts with any
  number of \<open>..\<close> segments followed by names resolves to the names below the root, with
  the size of that result; in particular \<open>/../../etc\<close> resolves to \<open>/etc\<close>.
\<close>

theorem C4_parent_of_root_is_absorbed:
  "(current_directory_split_string st = NULL \<and> last_used_path_segment_index st = - 1
      \<and> i < length (path_split_string st) \<and> path_split_string st ! i = Ptr ''..''
    \<longrightarrow> count_segment st (int i)
          = Inr (st \<lparr> path_split_string := (path_split_string st)[i := NULL] \<rparr>))
   \<and> (names \<noteq> [] \<and> (\<forall>s \<in> set names. is_name (CHR ''/'') s)
      \<and> p = CHR ''/'' # join_segments (CHR ''/'') (replicate k ''..'' @ names)
      \<and> length p \<le> SSIZE_MAX - 1
      \<and> alloc_ok os (length (join_segments (CHR ''/'') names) + 2)
    \<longrightarrow> get_full_path_posix os (Ptr p) (Ptr NULL) (Ptr n)
          = (Inr \<lparr> full_path = \<lparr> cells = CHR ''/'' # join_segments (CHR ''/'') names @ [NUL],
                                   violations = [] \<rparr>,
                    full_path_size = length (join_segments (CHR ''/'') names) + 2 \<rparr>, os))
   \<and> (alloc_ok os 5
    \<longrightarrow> get_full_path_posix os (Ptr ''/../../etc'') (Ptr NULL) (Ptr n)
          = (Inr \<lparr> full_path = \<lparr> cells = ''/etc'' @ [NUL], violations = [] \<rparr>,
                    full_path_size = 5 \<rparr>, os))"
proof (intro conjI impI)
  assume "current_directory_split_string st = NULL \<and> last_used_path_segment_index st = - 1
      \<and> i < length (path_split_string st) \<and> path_split_string st ! i = Ptr ''..''"
  then show "count_segment st (int i)
          = Inr (st \<lparr> path_split_string := (path_split_string st)[i := NULL] \<rparr>)"
    by (intro count_segment_elided [where s = "''..''"]) (simp_all add: is_elided_def)
next
  assume a: "names \<noteq> [] \<and> (\<forall>s \<in> set names. is_name (CHR ''/'') s)
      \<and> p = CHR ''/'' # join_segments (CHR ''/'') (replicate k ''..'' @ names)
      \<and> length p \<le> SSIZE_MAX - 1
      \<and> alloc_ok os (length (join_segments (CHR ''/'') names) + 2)"
  have el: "\<forall>s \<in> set (replicate k ''..''). is_elided s"
    by (simp add: is_elided_def)
  from a have nm: "\<forall>s \<in> set names. is_name (CHR ''/'') s" and ne: "names \<noteq> []"
    and p: "p = CHR ''/'' # join_segments (CHR ''/'') (replicate k ''..'' @ names)"
    and len: "length p \<le> SSIZE_MAX - 1"
    and alloc: "alloc_ok os (length (join_segments (CHR ''/'') names) + 2)"
    by blast+
  show "get_full_path_posix os (Ptr p) (Ptr NULL) (Ptr n)
          = (Inr \<lparr> full_path = \<lparr> cells = CHR ''/'' # join_segments (CHR ''/'') names @ [NUL],
                                   violations = [] \<rparr>,
                    full_path_size = length (join_segments (CHR ''/'') names) + 2 \<rparr>, os)"
    by (rule get_full_path_posix_absolute [OF el nm ne p len alloc])
next
  assume a: "alloc_ok os 5"
  have el: "\<forall>s \<in> set [''..'', ''..'']. is_elided s"
    by (simp add: is_elided_def)
  have nm: "\<forall>s \<in> set [''etc'']. is_name (CHR ''/'') s"
    by (simp add: is_name_def is_elided_def)
  have e: "length (join_segments (CHR ''/'') [''etc'']) + 2 = 5"
    by simp
  have len: "length ''/../../etc'' \<le> SSIZE_MAX - 1"
    by (simp add: SSIZE_MAX_def)
  have alloc: "alloc_ok os (length (join_segments (CHR ''/'') [''etc'']) + 2)"
    using a unfolding e .
  have "get_full_path_posix os (Ptr ''/../../etc'') (Ptr NULL) (Ptr n)
          = (Inr \<lparr> full_path = \<lparr> cells = CHR ''/'' # join_segments (CHR ''/'') [''etc''] @ [NUL],
                                   violations = [] \<rparr>,
                    full_path_size = length (join_segments (CHR ''/'') [''etc'']) + 2 \<rparr>, os)"
    by (rule get_full_path_posix_absolute [OF el nm _ _ len alloc]) simp_all
  then show "get_full_path_posix os (Ptr ''/../../etc'') (Ptr NULL) (Ptr n)
          = (Inr \<lparr> full_path = \<lparr> cells = ''/etc'' @ [NUL], violations = [] \<rparr>,
                    full_path_size = 5 \<rparr>, os)"
    unfolding e by simp
qed

theorem C4_parent_of_root_is_absorbed_witness:
  "count_segment
     \<lparr> path_split_string = [NULL, Ptr ''..'', Ptr ''etc''],
       current_directory_split_string = NULL, current_directory_segment_index = 0,
       last_used_path_segment_index = - 1, safe_full_path_size = 1 \<rparr> (int 1)
     = Inr \<lparr> path_split_string = [NULL, NULL, Ptr ''etc''],
             current_directory_split_string = NULL, current_directory_segment_index = 0,
             last_used_path_segment_index = - 1, safe_full_path_size = 1 \<rparr>
   \<and> get_full_path_posix (example_os ''/home'' Map.empty) (Ptr ''/../usr/lib'') (Ptr NULL) (Ptr 0)
     = (Inr \<lparr> full_path = \<lparr> cells = ''/usr/lib'' @ [NUL], violations = [] \<rparr>,
               full_path_size = 9 \<rparr>, example_os ''/home'' Map.empty)
   \<and> get_full_path_posix (example_os ''/home'' Map.empty) (Ptr ''/../../etc'') (Ptr NULL) (Ptr 0)
     = (Inr \<lparr> full_path = \<lparr> cells = ''/etc'' @ [NUL], violations = [] \<rparr>,
               full_path_size = 5 \<rparr>, example_os ''/home'' Map.empty)"
  using C4_parent_of_root_is_absorbed
    [of "\<lparr> path_split_string = [NULL, Ptr ''..'', Ptr ''etc''],
           current_directory_split_string = NULL, current_directory_segment_index = 0,
           last_used_path_segment_index = - 1, safe_full_path_size = 1 \<rparr>"
        1 "[''usr'', ''lib'']" "''/../usr/lib''" 1 "example_os ''/home'' Map.empty" 0]
  by (simp add: is_name_def is_elided_def SSIZE_MAX_def example_os_def)

subsection \<open>The resolver on Windows paths\<close>

text \<open>
  C6: when the classifier gives a Windows path the type Device, ExtendedLength,
  ExtendedLengthUNC or UNC, the resolver returns the operating system as it received it
  (no directory call is added to the trace, the working directory is not changed), and
  its result does not depend on the working directory or on any other part of the
  operating system than the allocator. In particular \<open>\\.\PhysicalDrive0\<close> resolves to
  itself, with its prefix written once.
\<close>

theorem C6_full_paths_skip_working_directory:
  "(get_path_type (Ptr p) (Ptr LIBCPATH_TYPE_RELATIVE) = Inr type
      \<and> (type = LIBCPATH_TYPE_DEVICE \<or> type = LIBCPATH_TYPE_EXTENDED_LENGTH
         \<or> type = LIBCPATH_TYPE_EXTENDED_LENGTH_UNC \<or> type = LIBCPATH_TYPE_UNC)
    \<longrightarrow> snd (get_full_path_windows os (Ptr p) full_path_out full_path_size_out) = os
        \<and> (alloc_ok os' = alloc_ok os
           \<longrightarrow> fst (get_full_path_windows os' (Ptr p) full_path_out full_path_size_out)
               = fst (get_full_path_windows os (Ptr p) full_path_out full_path_size_out)))
   \<and> (alloc_ok os 19
    \<longrightarrow> get_full_path_windows os (Ptr physical_drive) (Ptr NULL) (Ptr n)
          = (Inr \<lparr> full_path = \<lparr> cells = physical_drive @ [NUL], violations = [] \<rparr>,
                    full_path_size = 19 \<rparr>, os))"
proof (intro conjI impI)
  assume a: "get_path_type (Ptr p) (Ptr LIBCPATH_TYPE_RELATIVE) = Inr type
      \<and> (type = LIBCPATH_TYPE_DEVICE \<or> type = LIBCPATH_TYPE_EXTENDED_LENGTH
         \<or> type = LIBCPATH_TYPE_EXTENDED_LENGTH_UNC \<or> type = LIBCPATH_TYPE_UNC)"
  then have t: "get_path_type (Ptr p) (Ptr LIBCPATH_TYPE_RELATIVE) = Inr type"
    and n: "\<not> needs_current_directory type"
    by (auto simp: needs_current_directory_def)
  show "snd (get_full_path_windows os (Ptr p) full_path_out full_path_size_out) = os"
    by (rule get_full_path_windows_full_type(1) [OF t n])
  assume "alloc_ok os' = alloc_ok os"
  then show "fst (get_full_path_windows os' (Ptr p) full_path_out full_path_size_out)
               = fst (get_full_path_windows os (Ptr p) full_path_out full_path_size_out)"
    by (rule get_full_path_windows_full_type(2) [OF t n])
next
  assume "alloc_ok os 19"
  then show "get_full_path_windows os (Ptr physical_drive) (Ptr NULL) (Ptr n)
          = (Inr \<lparr> full_path = \<lparr> cells = physical_drive @ [NUL], violations = [] \<rparr>,
                    full_path_size = 19 \<rparr>, os)"
    by (rule physical_drive_full_path)
qed

theorem C6_full_paths_skip_working_directory_witness:
  "get_full_path_windows (example_os (''D:'' @ [BACKSLASH] @ ''work'') Map.empty)
       (Ptr physical_drive) (Ptr NULL) (Ptr 0)
     = (Inr \<lparr> full_path = \<lparr> cells = physical_drive @ [NUL], violations = [] \<rparr>,
               full_path_size = 19 \<rparr>,
        example_os (''D:'' @ [BACKSLASH] @ ''work'') Map.empty)
   \<and> fst (get_full_path_windows (example_os (''C:'' @ [BACKSLASH]) Map.empty)
          (Ptr physical_drive) (Ptr NULL) (Ptr 0))
     = fst (get_full_path_windows (example_os (''D:'' @ [BACKSLASH] @ ''work'') Map.empty)
          (Ptr physical_drive) (Ptr NULL) (Ptr 0))"
  using C6_full_paths_skip_working_directory
    [of physical_drive LIBCPATH_TYPE_DEVICE
        "example_os (''D:'' @ [BACKSLASH] @ ''work'') Map.empty" "Ptr NULL" "Ptr 0"
        "example_os (''C:'' @ [BACKSLASH]) Map.empty" 0]
    physical_drive_type
  by (simp add: example_os_def)

subsection \<open>Resolving a resolved path\<close>




end
